theory Spec2Isabelle
  imports Complex_Main "HOL-Library.Sublist"
begin

section \<open>The affiliate registry: data model\<close>

text \<open>
  The repository holds two variants of one dashboard over a CSV of union affiliates:
  \<^verbatim>\<open>src/App.py\<close> (variant 1, suffix \<open>_v1\<close>) and \<^verbatim>\<open>src/app.py\<close> (variant 2, suffix
  \<open>_v2\<close>). Both keep the registry in a pandas DataFrame.

  A cell of a DataFrame is a missing value (the float nan), a number or a text. Numbers are
  idealised as exact reals: rounding of 64-bit floats and the infinities are not modelled,
  and an integer is the same number as the float of equal value.
\<close>

datatype cell = NaN | Num real | Str string

fun is_Str :: "cell \<Rightarrow> bool" where
  "is_Str (Str s) = True"
| "is_Str c = False"

text \<open>
  A DataFrame has an ordered list of column names and a list of rows; a row gives the cell
  of each column. What a row holds outside the columns of its frame is never read.
\<close>

record dataframe =
  columns :: "string list"
  rows :: "(string \<Rightarrow> cell) list"

text \<open>The exceptions that the two scripts can meet.\<close>

datatype py_error =
    ReadError
  | KeyError string
  | ValueError
  | AttributeError
  | TypeError
  | ReError
  | ZeroDivisionError

text \<open>What the scripts show to the user through \<^verbatim>\<open>st.error\<close>, \<^verbatim>\<open>st.warning\<close>, \<^verbatim>\<open>st.success\<close>.\<close>

datatype ui_message = St_error py_error | St_warning | St_success

abbreviation "CEDULA \<equiv> ''CEDULA''"
abbreviation "NOMBRES \<equiv> ''APELLIDOS / NOMBRES''"
abbreviation "REGIONAL \<equiv> ''REGIONAL''"
abbreviation "CIUDAD \<equiv> ''CIUDAD AFILIACION''"
abbreviation "ESTADO_AFILIADO \<equiv> ''ESTADO_AFILIADO''"
abbreviation "SUMA_CUOTAS \<equiv> ''SUMA_CUOTAS''"
abbreviation "SUMA_CUOTAS_NUM \<equiv> ''SUMA_CUOTAS_NUM''"

section \<open>The pandas operations the scripts call\<close>

text \<open>\<^verbatim>\<open>pd.DataFrame()\<close>: no columns, no rows.\<close>

definition DataFrame :: dataframe where
  "DataFrame = \<lparr>columns = [], rows = []\<rparr>"

text \<open>\<^verbatim>\<open>len(df)\<close> and \<^verbatim>\<open>df.empty\<close> (true when either axis has length zero).\<close>

definition len_df :: "dataframe \<Rightarrow> nat" where
  "len_df df = length (rows df)"

definition df_empty :: "dataframe \<Rightarrow> bool" where
  "df_empty df = (rows df = [] \<or> columns df = [])"

text \<open>\<^verbatim>\<open>df[c]\<close> raises KeyError when the frame has no column \<open>c\<close>.\<close>

definition getitem :: "dataframe \<Rightarrow> string \<Rightarrow> py_error + cell list" where
  "getitem df c =
     (if c \<in> set (columns df) then Inr (map (\<lambda>r. r c) (rows df)) else Inl (KeyError c))"

text \<open>
  \<^verbatim>\<open>df[c] = series\<close> overwrites column \<open>c\<close> or adds it as the last column; the series
  always comes from a column of the same frame, so the lengths agree.
  \<^verbatim>\<open>df[c] = scalar\<close> gives every row the same cell.
\<close>

definition setitem :: "dataframe \<Rightarrow> string \<Rightarrow> cell list \<Rightarrow> dataframe" where
  "setitem df c xs =
     \<lparr>columns = (if c \<in> set (columns df) then columns df else columns df @ [c]),
      rows = map (\<lambda>(r, x). r(c := x)) (zip (rows df) xs)\<rparr>"

definition setitem_scalar :: "dataframe \<Rightarrow> string \<Rightarrow> cell \<Rightarrow> dataframe" where
  "setitem_scalar df c x =
     \<lparr>columns = (if c \<in> set (columns df) then columns df else columns df @ [c]),
      rows = map (\<lambda>r. r(c := x)) (rows df)\<rparr>"

text \<open>\<^verbatim>\<open>series.fillna(v)\<close>.\<close>

definition fillna :: "cell \<Rightarrow> cell list \<Rightarrow> cell list" where
  "fillna v xs = map (\<lambda>c. if c = NaN then v else c) xs"

text \<open>
  The \<^verbatim>\<open>.str\<close> accessor. pandas refuses it (AttributeError) on a column of a numeric dtype.
  A column read from CSV, or such a column after \<^verbatim>\<open>fillna\<close> with a text, has a numeric
  dtype exactly when it has at least one row and no text in it.
\<close>

definition str_accessor :: "cell list \<Rightarrow> py_error + cell list" where
  "str_accessor xs = (if xs \<noteq> [] \<and> \<not> list_ex is_Str xs then Inl AttributeError else Inr xs)"

text \<open>
  Case conversion. On a text of ASCII characters only, Python's \<^verbatim>\<open>str.upper()\<close> and the
  case-insensitive matching of its regex engine change the letters a to z and nothing
  else; that part is written out. On a text with any other character they follow the
  Unicode tables, which are data of Python's library: there the parameter \<open>py_upper\<close>
  stands for \<^verbatim>\<open>str.upper()\<close>, and the parameter \<open>icase\<close> of the search for the
  case-insensitive matching.
\<close>

definition ascii :: "string \<Rightarrow> bool" where
  "ascii s = list_all (\<lambda>c. \<not> digit7 c) s"

definition upper_char :: "char \<Rightarrow> char" where
  "upper_char c =
     (case map_of (zip ''abcdefghijklmnopqrstuvwxyz'' ''ABCDEFGHIJKLMNOPQRSTUVWXYZ'') c of
        Some u \<Rightarrow> u | None \<Rightarrow> c)"

definition lower_char :: "char \<Rightarrow> char" where
  "lower_char c =
     (case map_of (zip ''ABCDEFGHIJKLMNOPQRSTUVWXYZ'' ''abcdefghijklmnopqrstuvwxyz'') c of
        Some u \<Rightarrow> u | None \<Rightarrow> c)"

definition upper :: "(string \<Rightarrow> string) \<Rightarrow> string \<Rightarrow> string" where
  "upper py_upper s = (if ascii s then map upper_char s else py_upper s)"

text \<open>\<^verbatim>\<open>series.str.upper()\<close>: an entry that is not a text becomes nan.\<close>

fun upper_cell :: "(string \<Rightarrow> string) \<Rightarrow> cell \<Rightarrow> cell" where
  "upper_cell py_upper (Str s) = Str (upper py_upper s)"
| "upper_cell py_upper c = NaN"

definition str_upper :: "(string \<Rightarrow> string) \<Rightarrow> cell list \<Rightarrow> cell list" where
  "str_upper py_upper xs = map (upper_cell py_upper) xs"

text \<open>
  \<^verbatim>\<open>series.replace('[\$,]', '', regex=True)\<close>: in every text entry each character of the
  class, a dollar sign or a comma, is deleted; other entries are left alone.
\<close>

fun replace_dollar_comma :: "cell \<Rightarrow> cell" where
  "replace_dollar_comma (Str s) = Str (filter (\<lambda>c. c \<noteq> CHR ''$'' \<and> c \<noteq> CHR '','') s)"
| "replace_dollar_comma c = c"

text \<open>
  Python's \<^verbatim>\<open>float(text)\<close> is not code of the repository; it is a parameter \<open>float_of\<close>
  of the model: \<open>None\<close> when it raises ValueError, \<open>Some None\<close> for nan,
  \<open>Some (Some x)\<close> for the number \<open>x\<close>.
\<close>

type_synonym pyfloat = "real option"

fun cell_of_float :: "pyfloat \<Rightarrow> cell" where
  "cell_of_float None = NaN"
| "cell_of_float (Some x) = Num x"

text \<open>
  \<^verbatim>\<open>series.astype(float)\<close>: numbers and nan stay, a text is read as \<open>float_of\<close> reads
  it, and the first text that is no number raises ValueError.
\<close>

fun astype_float :: "(string \<Rightarrow> pyfloat option) \<Rightarrow> cell list \<Rightarrow> py_error + cell list" where
  "astype_float float_of [] = Inr []"
| "astype_float float_of (Str s # xs) =
     (case float_of s of
        None \<Rightarrow> Inl ValueError
      | Some f \<Rightarrow> (case astype_float float_of xs of
                     Inl e \<Rightarrow> Inl e
                   | Inr ys \<Rightarrow> Inr (cell_of_float f # ys)))"
| "astype_float float_of (c # xs) =
     (case astype_float float_of xs of Inl e \<Rightarrow> Inl e | Inr ys \<Rightarrow> Inr (c # ys))"

text \<open>Python's \<^verbatim>\<open>text.replace(old, new)\<close>, all occurrences from left to right.\<close>

function replace :: "string \<Rightarrow> string \<Rightarrow> string \<Rightarrow> string" where
  "replace old new s =
     (if old = [] then new @ concat (map (\<lambda>c. c # new) s)
      else if s = [] then []
      else if prefix old s then new @ replace old new (drop (length old) s)
      else hd s # replace old new (tl s))"
  by pat_completeness auto
termination
  by (relation "measure (\<lambda>(old, new, s). length s)") auto

declare replace.simps [simp del]

section \<open>Loading and cleaning\<close>

text \<open>\<^verbatim>\<open>clean_currency\<close> of \<^verbatim>\<open>src/app.py\<close>.\<close>

fun clean_currency :: "(string \<Rightarrow> pyfloat option) \<Rightarrow> cell \<Rightarrow> cell" where
  "clean_currency float_of (Str s) =
     (case float_of (replace '','' '''' (replace ''$'' '''' s)) of
        Some f \<Rightarrow> cell_of_float f
      | None \<Rightarrow> Num 0)"
| "clean_currency float_of c = c"

text \<open>
  \<^verbatim>\<open>load_data\<close> of \<^verbatim>\<open>src/App.py\<close>. Its argument \<open>parsed\<close> is what \<^verbatim>\<open>pd.read_csv\<close> gave:
  the frame, or the exception it raised. The body runs inside \<^verbatim>\<open>try\<close>; on any exception
  the function shows the error and returns \<^verbatim>\<open>pd.DataFrame()\<close>. The result is the
  returned frame together with the messages shown. The body has two steps:
  \<open>clean_cuotas_v1\<close> (lines 17 and 18) and \<open>normalize_estado_v1\<close> (lines 21 and 22).
\<close>

definition clean_cuotas_v1 ::
  "(string \<Rightarrow> pyfloat option) \<Rightarrow> dataframe \<Rightarrow> py_error + dataframe" where
  "clean_cuotas_v1 float_of df =
     (if SUMA_CUOTAS \<in> set (columns df) then
        (case astype_float float_of (map (\<lambda>r. replace_dollar_comma (r SUMA_CUOTAS)) (rows df)) of
           Inl e \<Rightarrow> Inl e
         | Inr xs \<Rightarrow> Inr (setitem df SUMA_CUOTAS_NUM xs))
      else Inr df)"

definition normalize_estado_v1 :: "(string \<Rightarrow> string) \<Rightarrow> dataframe \<Rightarrow> py_error + dataframe" where
  "normalize_estado_v1 py_upper df =
     (if ESTADO_AFILIADO \<in> set (columns df) then
        (case str_accessor (fillna (Str ''DESCONOCIDO'') (map (\<lambda>r. r ESTADO_AFILIADO) (rows df))) of
           Inl e \<Rightarrow> Inl e
         | Inr xs \<Rightarrow> Inr (setitem df ESTADO_AFILIADO (str_upper py_upper xs)))
      else Inr df)"

definition load_data_v1 ::
  "(string \<Rightarrow> pyfloat option) \<Rightarrow> (string \<Rightarrow> string) \<Rightarrow> py_error + dataframe
     \<Rightarrow> dataframe \<times> ui_message list" where
  "load_data_v1 float_of py_upper parsed =
     (case parsed of
        Inl e \<Rightarrow> (DataFrame, [St_error e])
      | Inr df \<Rightarrow>
          (case clean_cuotas_v1 float_of df of
             Inl e \<Rightarrow> (DataFrame, [St_error e])
           | Inr df1 \<Rightarrow>
               (case normalize_estado_v1 py_upper df1 of
                  Inl e \<Rightarrow> (DataFrame, [St_error e])
                | Inr df2 \<Rightarrow> (df2, []))))"

text \<open>
  \<^verbatim>\<open>load_data\<close> of \<^verbatim>\<open>src/app.py\<close>. It has no \<^verbatim>\<open>try\<close>: an exception of
  \<^verbatim>\<open>pd.read_csv\<close> or a KeyError of \<^verbatim>\<open>df['ESTADO_AFILIADO']\<close> or \<^verbatim>\<open>df['REGIONAL']\<close>
  leaves the function. Its first step, lines 24 to 27, is \<open>clean_cuotas_v2\<close>.
\<close>

definition clean_cuotas_v2 :: "(string \<Rightarrow> pyfloat option) \<Rightarrow> dataframe \<Rightarrow> dataframe" where
  "clean_cuotas_v2 float_of df =
     (if SUMA_CUOTAS \<in> set (columns df)
      then setitem df SUMA_CUOTAS_NUM
             (map (clean_currency float_of) (map (\<lambda>r. r SUMA_CUOTAS) (rows df)))
      else setitem_scalar df SUMA_CUOTAS_NUM (Num 0))"

definition load_data_v2 ::
  "(string \<Rightarrow> pyfloat option) \<Rightarrow> py_error + dataframe \<Rightarrow> py_error + dataframe" where
  "load_data_v2 float_of parsed =
     (case parsed of
        Inl e \<Rightarrow> Inl e
      | Inr df \<Rightarrow>
          (let df1 = clean_cuotas_v2 float_of df
           in case getitem df1 ESTADO_AFILIADO of
                Inl e \<Rightarrow> Inl e
              | Inr es \<Rightarrow>
                  (let df2 = setitem df1 ESTADO_AFILIADO (fillna (Str ''DESCONOCIDO'') es)
                   in case getitem df2 REGIONAL of
                        Inl e \<Rightarrow> Inl e
                      | Inr gs \<Rightarrow> Inr (setitem df2 REGIONAL (fillna (Str ''SIN ASIGNAR'') gs)))))"

text \<open>
  A reading of plain decimal numerals (\<^verbatim>\<open>1000\<close>, \<^verbatim>\<open>17509.00\<close>), used for the concrete
  tables below: on these and on texts without any digit, such as \<^verbatim>\<open>abc\<close>, it is what
  Python's \<^verbatim>\<open>float\<close> does. The general results hold for every \<open>float_of\<close>.
\<close>

definition digit :: "char \<Rightarrow> bool" where
  "digit c = (c \<in> set ''0123456789'')"

definition nat_of_digits :: "string \<Rightarrow> nat" where
  "nat_of_digits s = foldl (\<lambda>n c. 10 * n + (of_char c - 48)) 0 s"

definition float_plain :: "string \<Rightarrow> pyfloat option" where
  "float_plain s =
     (let a = takeWhile (\<lambda>c. c \<noteq> CHR ''.'') s; b = drop (Suc (length a)) s
      in if a = [] \<or> \<not> list_all digit a \<or> \<not> list_all digit b then None
         else if length a < length s \<and> b = [] then None
         else Some (Some (real (nat_of_digits a) + real (nat_of_digits b) / 10 ^ length b)))"

section \<open>Aggregation and selection\<close>

text \<open>
  \<^verbatim>\<open>series.sum()\<close> skips nan. A column that holds a text has no numeric total (pandas
  raises TypeError or joins the texts); the model reports that as TypeError.
\<close>

fun num_val :: "cell \<Rightarrow> real" where
  "num_val (Num x) = x"
| "num_val c = 0"

definition series_sum :: "cell list \<Rightarrow> py_error + real" where
  "series_sum xs = (if list_ex is_Str xs then Inl TypeError else Inr (sum_list (map num_val xs)))"

text \<open>
  \<^verbatim>\<open>series.value_counts()\<close>: the number of entries per value, nan left out. The result
  is kept as a map from the value to its count; the order in which pandas lists the
  values is not part of the model.
\<close>

definition value_counts :: "cell list \<Rightarrow> (cell \<rightharpoonup> nat)" where
  "value_counts xs = (\<lambda>k. if k = NaN then None
                           else if k \<in> set xs then Some (count_list xs k) else None)"

text \<open>\<^verbatim>\<open>df[mask]\<close>: the rows at which the boolean mask is true.\<close>

definition select_rows :: "dataframe \<Rightarrow> bool list \<Rightarrow> dataframe" where
  "select_rows df bs = df\<lparr>rows := map fst (filter snd (zip (rows df) bs))\<rparr>"

text \<open>\<^verbatim>\<open>series == text\<close>, entry by entry.\<close>

definition eq_mask :: "cell list \<Rightarrow> string \<Rightarrow> bool list" where
  "eq_mask xs s = map (\<lambda>c. c = Str s) xs"

text \<open>Python's \<^verbatim>\<open>a / b\<close>.\<close>

definition py_truediv :: "real \<Rightarrow> real \<Rightarrow> py_error + real" where
  "py_truediv a b = (if b = 0 then Inl ZeroDivisionError else Inr (a / b))"

text \<open>
  \<^verbatim>\<open>df.groupby(key)\<close>: one group per value of the key column; rows whose key is nan
  belong to no group (pandas drops them by default). The groups are kept as a map from
  the key value.
\<close>

definition group_rows :: "dataframe \<Rightarrow> string \<Rightarrow> cell \<Rightarrow> (string \<Rightarrow> cell) list" where
  "group_rows df key k = filter (\<lambda>r. r key = k) (rows df)"

definition is_group :: "dataframe \<Rightarrow> string \<Rightarrow> cell \<Rightarrow> bool" where
  "is_group df key k = (if k = NaN then False else k \<in> set (map (\<lambda>r. r key) (rows df)))"

section \<open>Text search\<close>

text \<open>
  \<^verbatim>\<open>series.str.contains(pat, case=..., na=...)\<close> reads \<open>pat\<close> as a regular expression.
  A pattern without any regex metacharacter matches a text exactly when it occurs in
  it; with \<^verbatim>\<open>case=False\<close> the case of letters is ignored: for ASCII texts that is the
  comparison of the two in lower case, for others the parameter \<open>icase\<close> says whether
  the text contains the pattern. Python's regex engine is not code of the repository:
  for a pattern with a metacharacter the parameter \<open>re_compile\<close> gives the compiled
  matcher, or \<open>None\<close> when the pattern is rejected (\<^verbatim>\<open>re.error\<close>). An entry that is not
  a text gives \<open>na\<close>.
\<close>

fun contains_lit :: "string \<Rightarrow> string \<Rightarrow> bool" where
  "contains_lit q [] = (q = [])"
| "contains_lit q (c # s) = (if take (length q) (c # s) = q then True else contains_lit q s)"

definition contains_icase :: "(string \<Rightarrow> string \<Rightarrow> bool) \<Rightarrow> string \<Rightarrow> string \<Rightarrow> bool" where
  "contains_icase icase q s =
     (if ascii q \<and> ascii s then contains_lit (map lower_char q) (map lower_char s)
      else icase q s)"

definition metachar :: "char \<Rightarrow> bool" where
  "metachar c = (c \<in> set (''.^$*+?{}[]|()'' @ [CHR 0x5C]))"

definition compile_pat ::
  "(bool \<Rightarrow> string \<Rightarrow> (string \<Rightarrow> bool) option) \<Rightarrow> (string \<Rightarrow> string \<Rightarrow> bool) \<Rightarrow> bool \<Rightarrow> string
     \<Rightarrow> py_error + (string \<Rightarrow> bool)" where
  "compile_pat re_compile icase ignorecase pat =
     (if list_ex metachar pat then
        (case re_compile ignorecase pat of None \<Rightarrow> Inl ReError | Some m \<Rightarrow> Inr m)
      else if ignorecase then Inr (\<lambda>s. contains_icase icase pat s)
      else Inr (\<lambda>s. contains_lit pat s))"

definition str_contains ::
  "(bool \<Rightarrow> string \<Rightarrow> (string \<Rightarrow> bool) option) \<Rightarrow> (string \<Rightarrow> string \<Rightarrow> bool) \<Rightarrow> bool \<Rightarrow> bool
     \<Rightarrow> string \<Rightarrow> cell list \<Rightarrow> py_error + bool list" where
  "str_contains re_compile icase case_sensitive na pat xs =
     (case compile_pat re_compile icase (\<not> case_sensitive) pat of
        Inl e \<Rightarrow> Inl e
      | Inr m \<Rightarrow> Inr (map (\<lambda>c. case c of Str s \<Rightarrow> m s | _ \<Rightarrow> na) xs))"

text \<open>
  \<^verbatim>\<open>series.astype(str)\<close>: a text stays, nan becomes the text \<^verbatim>\<open>nan\<close>, a number becomes
  its Python text, given by the parameter \<open>num_text\<close> (\<^verbatim>\<open>123\<close> in an integer column,
  \<^verbatim>\<open>123.0\<close> in a float column).
\<close>

fun text_of :: "(real \<Rightarrow> string) \<Rightarrow> cell \<Rightarrow> string" where
  "text_of num_text (Str s) = s"
| "text_of num_text (Num x) = num_text x"
| "text_of num_text NaN = ''nan''"

definition astype_str :: "(real \<Rightarrow> string) \<Rightarrow> cell list \<Rightarrow> cell list" where
  "astype_str num_text xs = map (\<lambda>c. Str (text_of num_text c)) xs"

text \<open>\<^verbatim>\<open>mask_a | mask_b\<close>.\<close>

definition or_mask :: "bool list \<Rightarrow> bool list \<Rightarrow> bool list" where
  "or_mask a b = map (\<lambda>(x, y). x \<or> y) (zip a b)"

section \<open>Variant 1: \<^verbatim>\<open>src/App.py\<close>\<close>

record kpis =
  total_afiliados :: nat
  activos :: nat
  retirados :: nat
  total_recaudo :: real

text \<open>The four indicators of the Dashboard, lines 52 to 55.\<close>

definition kpis_v1 :: "dataframe \<Rightarrow> py_error + kpis" where
  "kpis_v1 df =
     (case getitem df ESTADO_AFILIADO of
        Inl e \<Rightarrow> Inl e
      | Inr es \<Rightarrow>
          (case (if SUMA_CUOTAS_NUM \<in> set (columns df)
                 then series_sum (map (\<lambda>r. r SUMA_CUOTAS_NUM) (rows df))
                 else Inr 0) of
             Inl e \<Rightarrow> Inl e
           | Inr recaudo \<Rightarrow>
               Inr \<lparr>total_afiliados = len_df df,
                    activos = len_df (select_rows df (eq_mask es ''ACTIVO'')),
                    retirados = len_df (select_rows df (eq_mask es ''RETIRADO'')),
                    total_recaudo = recaudo\<rparr>))"

record dashboard_v1_view =
  metrics :: kpis
  pct_activos :: real
  fig_reg :: "cell \<rightharpoonup> nat"

text \<open>
  The Dashboard: the indicators, the percentage of active affiliates shown with them
  (line 59) and the bar chart of affiliates per regional (line 69).
\<close>

definition dashboard_v1 :: "dataframe \<Rightarrow> py_error + dashboard_v1_view" where
  "dashboard_v1 df =
     (case kpis_v1 df of
        Inl e \<Rightarrow> Inl e
      | Inr k \<Rightarrow>
          (case py_truediv (real (activos k)) (real (total_afiliados k)) of
             Inl e \<Rightarrow> Inl e
           | Inr q \<Rightarrow>
               (case getitem df REGIONAL of
                  Inl e \<Rightarrow> Inl e
                | Inr gs \<Rightarrow>
                    Inr \<lparr>metrics = k, pct_activos = q * 100, fig_reg = value_counts gs\<rparr>)))"

text \<open>
  The form \<^verbatim>\<open>new_member\<close>: on submission the script only shows the success message
  ("registrado correctamente (Simulado)"); the table is not touched.
\<close>

record new_member =
  m_cedula :: string
  m_nombre :: string
  m_regional :: cell
  m_estado :: string
  m_cuota :: real

definition new_member_v1 :: "dataframe \<Rightarrow> new_member \<Rightarrow> dataframe \<times> ui_message list" where
  "new_member_v1 df form = (df, [St_success])"

text \<open>The search box, lines 97 to 100; it filters on every run, also with an empty query.\<close>

definition search_v1 ::
  "(bool \<Rightarrow> string \<Rightarrow> (string \<Rightarrow> bool) option) \<Rightarrow> (string \<Rightarrow> string \<Rightarrow> bool) \<Rightarrow> (real \<Rightarrow> string)
     \<Rightarrow> dataframe \<Rightarrow> string \<Rightarrow> py_error + dataframe" where
  "search_v1 re_compile icase num_text df search =
     (case getitem df NOMBRES of
        Inl e \<Rightarrow> Inl e
      | Inr ns \<Rightarrow>
          (case str_accessor ns of
             Inl e \<Rightarrow> Inl e
           | Inr ns' \<Rightarrow>
               (case str_contains re_compile icase False False search ns' of
                  Inl e \<Rightarrow> Inl e
                | Inr by_name \<Rightarrow>
                    (case getitem df CEDULA of
                       Inl e \<Rightarrow> Inl e
                     | Inr cs \<Rightarrow>
                         (case str_accessor (astype_str num_text cs) of
                            Inl e \<Rightarrow> Inl e
                          | Inr cs' \<Rightarrow>
                              (case str_contains re_compile icase True False search cs' of
                                 Inl e \<Rightarrow> Inl e
                               | Inr by_cedula \<Rightarrow>
                                   Inr (select_rows df (or_mask by_name by_cedula))))))))"

text \<open>
  The section of affiliate management: the form offers the values of the regional
  column (KeyError without it), then the search.
\<close>

definition gestion_v1 ::
  "(bool \<Rightarrow> string \<Rightarrow> (string \<Rightarrow> bool) option) \<Rightarrow> (string \<Rightarrow> string \<Rightarrow> bool) \<Rightarrow> (real \<Rightarrow> string)
     \<Rightarrow> dataframe \<Rightarrow> new_member option \<Rightarrow> string \<Rightarrow> py_error + ui_message list \<times> dataframe" where
  "gestion_v1 re_compile icase num_text df submit search =
     (case getitem df REGIONAL of
        Inl e \<Rightarrow> Inl e
      | Inr gs \<Rightarrow>
          (let (df', msgs) = (case submit of None \<Rightarrow> (df, []) | Some form \<Rightarrow> new_member_v1 df form)
           in case search_v1 re_compile icase num_text df' search of
                Inl e \<Rightarrow> Inl e
              | Inr filtered_df \<Rightarrow> Inr (msgs, filtered_df)))"

text \<open>
  The report per regional, lines 106 to 110: per group the number of entries of CEDULA that
  are present, the number of rows with status ACTIVO and the sum of the numeric dues
  (as for \<open>series_sum\<close>, a dues column that holds a text is reported as TypeError).
\<close>

record resumen =
  Afiliados :: nat
  Activos :: nat
  Recaudo_Total :: real

definition resumen_regional :: "dataframe \<Rightarrow> py_error + (cell \<rightharpoonup> resumen)" where
  "resumen_regional df =
     (case getitem df REGIONAL of
        Inl e \<Rightarrow> Inl e
      | Inr gs \<Rightarrow>
          (case getitem df CEDULA of
             Inl e \<Rightarrow> Inl e
           | Inr cs \<Rightarrow>
               (case getitem df ESTADO_AFILIADO of
                  Inl e \<Rightarrow> Inl e
                | Inr es \<Rightarrow>
                    (case getitem df SUMA_CUOTAS_NUM of
                       Inl e \<Rightarrow> Inl e
                     | Inr vs \<Rightarrow>
                         if list_ex is_Str vs then Inl TypeError
                         else Inr (\<lambda>k. if is_group df REGIONAL k
                                        then Some
                                          \<lparr>Afiliados =
                                              length (filter (\<lambda>r. r CEDULA \<noteq> NaN)
                                                        (group_rows df REGIONAL k)),
                                           Activos =
                                              length (filter (\<lambda>r. r ESTADO_AFILIADO = Str ''ACTIVO'')
                                                        (group_rows df REGIONAL k)),
                                           Recaudo_Total =
                                              sum_list (map (\<lambda>r. num_val (r SUMA_CUOTAS_NUM))
                                                          (group_rows df REGIONAL k))\<rparr>
                                        else None)))))"

text \<open>
  The script: load the file, then, when the table is not empty, show the section chosen
  in the menu; otherwise show the warning. The result is the messages shown and the
  section's content.
\<close>

datatype menu_v1 =
    Dashboard
  | Gestion_de_Afiliados "new_member option" string
  | Reportes_por_Regional

datatype screen_v1 =
    Dashboard_screen dashboard_v1_view
  | Gestion_screen dataframe
  | Reportes_screen "cell \<rightharpoonup> resumen"
  | No_screen

definition main_v1 ::
  "(string \<Rightarrow> pyfloat option) \<Rightarrow> (string \<Rightarrow> string)
     \<Rightarrow> (bool \<Rightarrow> string \<Rightarrow> (string \<Rightarrow> bool) option) \<Rightarrow> (string \<Rightarrow> string \<Rightarrow> bool) \<Rightarrow> (real \<Rightarrow> string)
     \<Rightarrow> py_error + dataframe \<Rightarrow> menu_v1 \<Rightarrow> py_error + ui_message list \<times> screen_v1" where
  "main_v1 float_of py_upper re_compile icase num_text parsed menu =
     (let (df, msgs) = load_data_v1 float_of py_upper parsed
      in if df_empty df then Inr (msgs @ [St_warning], No_screen)
         else (case menu of
                 Dashboard \<Rightarrow>
                   (case dashboard_v1 df of
                      Inl e \<Rightarrow> Inl e
                    | Inr v \<Rightarrow> Inr (msgs, Dashboard_screen v))
               | Gestion_de_Afiliados submit search \<Rightarrow>
                   (case gestion_v1 re_compile icase num_text df submit search of
                      Inl e \<Rightarrow> Inl e
                    | Inr (ms, filtered_df) \<Rightarrow> Inr (msgs @ ms, Gestion_screen filtered_df))
               | Reportes_por_Regional \<Rightarrow>
                   (case resumen_regional df of
                      Inl e \<Rightarrow> Inl e
                    | Inr tbl \<Rightarrow> Inr (msgs, Reportes_screen tbl))))"

section \<open>Variant 2: \<^verbatim>\<open>src/app.py\<close>\<close>

text \<open>
  The registry lives in \<^verbatim>\<open>st.session_state.df_afiliados\<close>. It is set once per session:
  from the file, or, when \<^verbatim>\<open>load_data\<close> raises, to an empty frame with six columns.
\<close>

record session_state =
  df_afiliados :: dataframe

definition df_estructurado :: dataframe where
  "df_estructurado =
     \<lparr>columns = [CEDULA, NOMBRES, REGIONAL, CIUDAD, ESTADO_AFILIADO, SUMA_CUOTAS_NUM], rows = []\<rparr>"

definition session_init :: "(string \<Rightarrow> pyfloat option) \<Rightarrow> py_error + dataframe \<Rightarrow> session_state" where
  "session_init float_of parsed =
     (case load_data_v2 float_of parsed of
        Inr df \<Rightarrow> \<lparr>df_afiliados = df\<rparr>
      | Inl e \<Rightarrow> \<lparr>df_afiliados = df_estructurado\<rparr>)"

text \<open>
  \<^verbatim>\<open>pd.concat([a, b], ignore_index=True)\<close>: the columns of \<open>a\<close>, then those of \<open>b\<close> that
  \<open>a\<close> lacks; the rows of \<open>a\<close>, then those of \<open>b\<close>; a row has nan in the columns its
  own frame lacks.
\<close>

definition reindex :: "string list \<Rightarrow> (string \<Rightarrow> cell) \<Rightarrow> (string \<Rightarrow> cell)" where
  "reindex cols r = (\<lambda>c. if c \<in> set cols then r c else NaN)"

definition concat_df :: "dataframe \<Rightarrow> dataframe \<Rightarrow> dataframe" where
  "concat_df a b =
     \<lparr>columns = columns a @ filter (\<lambda>c. c \<notin> set (columns a)) (columns b),
      rows = map (reindex (columns a)) (rows a) @ map (reindex (columns b)) (rows b)\<rparr>"

text \<open>
  The form \<^verbatim>\<open>nuevo_afiliado\<close>. The text of the dues, \<^verbatim>\<open>f"${cuota:,.2f}"\<close>, is Python's
  number formatting, the parameter \<open>fmt_money\<close>.
\<close>

record nuevo_afiliado =
  cedula :: string
  nombre :: string
  reg :: string
  estado :: string
  cuota :: real

definition new_row :: "(real \<Rightarrow> string) \<Rightarrow> nuevo_afiliado \<Rightarrow> dataframe" where
  "new_row fmt_money form =
     \<lparr>columns = [CEDULA, NOMBRES, REGIONAL, ESTADO_AFILIADO, SUMA_CUOTAS_NUM, SUMA_CUOTAS],
      rows = [(\<lambda>c. NaN)
                (CEDULA := Str (cedula form),
                 NOMBRES := Str (nombre form),
                 REGIONAL := Str (reg form),
                 ESTADO_AFILIADO := Str (estado form),
                 SUMA_CUOTAS_NUM := Num (cuota form),
                 SUMA_CUOTAS := Str (fmt_money (cuota form)))]\<rparr>"

definition guardar_afiliado ::
  "(real \<Rightarrow> string) \<Rightarrow> session_state \<Rightarrow> nuevo_afiliado \<Rightarrow> session_state \<times> ui_message list" where
  "guardar_afiliado fmt_money st form =
     (st\<lparr>df_afiliados := concat_df (df_afiliados st) (new_row fmt_money form)\<rparr>, [St_success])"


text \<open>
  The two charts: affiliates per regional (line 82) and dues per regional (line 91; as
  for \<open>series_sum\<close>, a dues column that holds a text is reported as TypeError).
\<close>

definition regional_counts :: "dataframe \<Rightarrow> py_error + (cell \<rightharpoonup> nat)" where
  "regional_counts df =
     (case getitem df REGIONAL of Inl e \<Rightarrow> Inl e | Inr gs \<Rightarrow> Inr (value_counts gs))"

definition recaudo_reg :: "dataframe \<Rightarrow> py_error + (cell \<rightharpoonup> real)" where
  "recaudo_reg df =
     (case getitem df REGIONAL of
        Inl e \<Rightarrow> Inl e
      | Inr gs \<Rightarrow>
          (case getitem df SUMA_CUOTAS_NUM of
             Inl e \<Rightarrow> Inl e
           | Inr vs \<Rightarrow>
               if list_ex is_Str vs then Inl TypeError
               else Inr (\<lambda>k. if is_group df REGIONAL k
                              then Some (sum_list (map (\<lambda>r. num_val (r SUMA_CUOTAS_NUM))
                                                     (group_rows df REGIONAL k)))
                              else None)))"




text \<open>
  Import, lines 142 to 147: \<^verbatim>\<open>load_data\<close> is called outside any \<^verbatim>\<open>try\<close>; when it
  raises, the exception leaves the script and the session keeps its table.
\<close>

definition confirmar_importacion ::
  "(string \<Rightarrow> pyfloat option) \<Rightarrow> session_state \<Rightarrow> py_error + dataframe
     \<Rightarrow> py_error + session_state \<times> ui_message list" where
  "confirmar_importacion float_of st parsed =
     (case load_data_v2 float_of parsed of
        Inl e \<Rightarrow> Inl e
      | Inr new_data \<Rightarrow> Inr (st\<lparr>df_afiliados := new_data\<rparr>, [St_success]))"

text \<open>
  Export, lines 149 to 159. \<^verbatim>\<open>DataFrame.to_csv\<close> and \<^verbatim>\<open>str.encode\<close> are library code,
  the parameters \<open>to_csv\<close> (with its \<^verbatim>\<open>header\<close> flag, left at the default \<^verbatim>\<open>True\<close>,
  and its \<^verbatim>\<open>index\<close> flag) and \<open>encode\<close> (with the name of the encoding). The script
  serialises a copy of the session's table and offers the bytes for download.
\<close>

record 'b download_button =
  data :: 'b
  file_name :: string
  mime :: string

definition exportar ::
  "(bool \<Rightarrow> bool \<Rightarrow> dataframe \<Rightarrow> string) \<Rightarrow> (string \<Rightarrow> string \<Rightarrow> 'b) \<Rightarrow> session_state
     \<Rightarrow> session_state \<times> 'b download_button" where
  "exportar to_csv encode st =
     (let df_to_save = df_afiliados st;
          csv_data = encode ''utf-8'' (to_csv True False df_to_save)
      in (st, \<lparr>data = csv_data, file_name = ''DB_AFILIADOS_ACTUALIZADA.csv'', mime = ''text/csv''\<rparr>))"

section \<open>Notions of the specification\<close>

text \<open>"Remove all \<^verbatim>\<open>$\<close> and \<^verbatim>\<open>,\<close> characters", in the specification's words.\<close>

definition strip_currency :: "string \<Rightarrow> string" where
  "strip_currency s = filter (\<lambda>c. c \<noteq> CHR ''$'' \<and> c \<noteq> CHR '','') s"

text \<open>A raw dues value is numeric once stripped: it is no text, or its stripped text parses.\<close>

fun cuota_parses :: "(string \<Rightarrow> pyfloat option) \<Rightarrow> cell \<Rightarrow> bool" where
  "cuota_parses float_of (Str s) = (float_of (strip_currency s) \<noteq> None)"
| "cuota_parses float_of c = True"

section \<open>Concrete tables\<close>

text \<open>A row of the input file, by its cedula, name, regional, status and raw dues.\<close>

definition fila :: "cell \<Rightarrow> cell \<Rightarrow> cell \<Rightarrow> cell \<Rightarrow> cell \<Rightarrow> (string \<Rightarrow> cell)" where
  "fila ced nom regional est cuo =
     (\<lambda>c. NaN)(CEDULA := ced, NOMBRES := nom, REGIONAL := regional,
               ESTADO_AFILIADO := est, SUMA_CUOTAS := cuo)"

definition csv_columns :: "string list" where
  "csv_columns = [CEDULA, NOMBRES, REGIONAL, CIUDAD, ESTADO_AFILIADO, SUMA_CUOTAS]"

text \<open>The one-row file of the specification's scenario.\<close>

definition tabla_juan :: dataframe where
  "tabla_juan =
     \<lparr>columns = csv_columns,
      rows = [fila (Num 123) (Str ''Juan Perez'') (Str ''SUR'') (Str ''activo'') (Str ''$1,000.00'')]\<rparr>"

text \<open>A file whose second row has dues that are no number.\<close>

definition tabla_cuota_mala :: dataframe where
  "tabla_cuota_mala =
     \<lparr>columns = csv_columns,
      rows = [fila (Num 123) (Str ''Juan Perez'') (Str ''SUR'') (Str ''ACTIVO'') (Str ''$1,000.00''),
              fila (Num 456) (Str ''Ana Ruiz'') (Str ''SUR'') (Str ''ACTIVO'') (Str ''pendiente'')]\<rparr>"

text \<open>A status entry of a text column: a text or missing, never a number.\<close>

fun text_or_missing :: "cell \<Rightarrow> bool" where
  "text_or_missing (Num x) = False"
| "text_or_missing c = True"

text \<open>
  The normalized status of the specification: the uppercase of the text, or the
  sentinel for a missing entry. And the status filled only, without the case conversion.
\<close>

fun normalized_status :: "(string \<Rightarrow> string) \<Rightarrow> cell \<Rightarrow> cell" where
  "normalized_status py_upper (Str s) = Str (upper py_upper s)"
| "normalized_status py_upper c = Str ''DESCONOCIDO''"

definition filled_status :: "cell \<Rightarrow> cell" where
  "filled_status c = (if c = NaN then Str ''DESCONOCIDO'' else c)"

text \<open>A file without the status column.\<close>

definition tabla_sin_estado :: dataframe where
  "tabla_sin_estado =
     \<lparr>columns = [CEDULA, NOMBRES, REGIONAL, SUMA_CUOTAS],
      rows = [(\<lambda>c. NaN)(CEDULA := Num 123, NOMBRES := Str ''Juan Perez'',
                         REGIONAL := Str ''SUR'', SUMA_CUOTAS := Str ''$1,000.00'')]\<rparr>"

text \<open>
  Stand-ins for the library parameters in the concrete examples, which use ASCII
  texts, patterns without metacharacters and the cedulas 123 and 456 of an integer
  column.
\<close>

definition upper_plain :: "string \<Rightarrow> string" where
  "upper_plain s = s"

definition icase_plain :: "string \<Rightarrow> string \<Rightarrow> bool" where
  "icase_plain q s = False"

definition no_regex :: "bool \<Rightarrow> string \<Rightarrow> (string \<Rightarrow> bool) option" where
  "no_regex ignorecase pat = None"

definition cedula_text :: "real \<Rightarrow> string" where
  "cedula_text x = (if x = 123 then ''123'' else if x = 456 then ''456'' else ''0'')"

text \<open>The table that variant 1 holds after loading the one-row file.\<close>

definition juan_v1 :: dataframe where
  "juan_v1 = setitem (setitem tabla_juan SUMA_CUOTAS_NUM [Num 1000]) ESTADO_AFILIADO [Str ''ACTIVO'']"

text \<open>The table that variant 2 holds after loading the one-row file.\<close>

definition juan_v2 :: dataframe where
  "juan_v2 = setitem (setitem (setitem tabla_juan SUMA_CUOTAS_NUM [Num 1000])
                        ESTADO_AFILIADO [Str ''activo'']) REGIONAL [Str ''SUR'']"


definition numeric_column :: "string \<Rightarrow> dataframe \<Rightarrow> bool" where
  "numeric_column c df = (\<not> list_ex (\<lambda>r. is_Str (r c)) (rows df))"

text \<open>The count of the records that satisfy a condition, and the sum of the numeric dues.\<close>

definition count_records :: "((string \<Rightarrow> cell) \<Rightarrow> bool) \<Rightarrow> dataframe \<Rightarrow> nat" where
  "count_records p df = length (filter p (rows df))"

definition sum_cuotas :: "(string \<Rightarrow> cell) list \<Rightarrow> real" where
  "sum_cuotas rs = sum_list (map (\<lambda>r. num_val (r SUMA_CUOTAS_NUM)) rs)"

text \<open>A file without the dues column, and the table that variant 2 holds after loading it.\<close>

definition tabla_sin_cuotas :: dataframe where
  "tabla_sin_cuotas =
     \<lparr>columns = [CEDULA, NOMBRES, REGIONAL, ESTADO_AFILIADO],
      rows = [(\<lambda>c. NaN)(CEDULA := Num 123, NOMBRES := Str ''Juan Perez'',
                         REGIONAL := Str ''SUR'', ESTADO_AFILIADO := Str ''ACTIVO'')]\<rparr>"

definition sin_cuotas_v2 :: dataframe where
  "sin_cuotas_v2 =
     setitem (setitem (setitem_scalar tabla_sin_cuotas SUMA_CUOTAS_NUM (Num 0))
                ESTADO_AFILIADO [Str ''ACTIVO'']) REGIONAL [Str ''SUR'']"

text \<open>A file whose second record has no regional.\<close>

definition tabla_sin_regional :: dataframe where
  "tabla_sin_regional =
     \<lparr>columns = csv_columns,
      rows = [fila (Num 123) (Str ''Juan Perez'') (Str ''SUR'') (Str ''ACTIVO'') (Str ''$1,000.00''),
              fila (Num 456) (Str ''Ana Ruiz'') NaN (Str ''ACTIVO'') (Str ''$500.00'')]\<rparr>"

definition sin_regional_v1 :: dataframe where
  "sin_regional_v1 =
     setitem (setitem tabla_sin_regional SUMA_CUOTAS_NUM [Num 1000, Num 500])
       ESTADO_AFILIADO [Str ''ACTIVO'', Str ''ACTIVO'']"

text \<open>The records that have a regional.\<close>

definition with_regional :: "dataframe \<Rightarrow> (string \<Rightarrow> cell) list" where
  "with_regional df = filter (\<lambda>r. r REGIONAL \<noteq> NaN) (rows df)"

text \<open>The entry of a group in a breakdown, 0 for a value that has no group.\<close>

definition count_of :: "(cell \<rightharpoonup> nat) \<Rightarrow> cell \<Rightarrow> nat" where
  "count_of m k = (case m k of None \<Rightarrow> 0 | Some n \<Rightarrow> n)"

definition sum_of :: "(cell \<rightharpoonup> real) \<Rightarrow> cell \<Rightarrow> real" where
  "sum_of m k = (case m k of None \<Rightarrow> 0 | Some x \<Rightarrow> x)"

text \<open>The submission of the specification's scenario: dues 500.0, regional SUR.\<close>

definition form_ejemplo :: nuevo_afiliado where
  "form_ejemplo =
     \<lparr>cedula = ''789'', nombre = ''Luis Mora'', reg = ''SUR'', estado = ''ACTIVO'', cuota = 500\<rparr>"

definition fmt_ejemplo :: "real \<Rightarrow> string" where
  "fmt_ejemplo x = (if x = 500 then ''$500.00'' else ''$0.00'')"

text \<open>The same submission in the form of variant 1.\<close>

definition member_ejemplo :: new_member where
  "member_ejemplo =
     \<lparr>m_cedula = ''789'', m_nombre = ''Luis Mora'', m_regional = Str ''SUR'',
      m_estado = ''ACTIVO'', m_cuota = 500\<rparr>"

text \<open>The table of variant 2 after the one-row file is loaded and the form is submitted.\<close>

definition juan_luis_v2 :: dataframe where
  "juan_luis_v2 =
     df_afiliados (fst (guardar_afiliado fmt_ejemplo \<lparr>df_afiliados = juan_v2\<rparr> form_ejemplo))"















section \<open>Currency cleaning\<close>

lemma replace_char_empty: "replace [c] [] s = filter (\<lambda>x. x \<noteq> c) s"
proof (induction s)
  case Nil
  show ?case by (simp add: replace.simps)
next
  case (Cons a s)
  show ?case by (subst replace.simps) (simp add: Cons.IH)
qed

lemma replace_dollar_then_comma:
  "replace '','' [] (replace ''$'' [] s) = strip_currency s"
  by (simp add: replace_char_empty strip_currency_def conj_commute)

lemma clean_currency_Str:
  "clean_currency float_of (Str s) =
     (case float_of (strip_currency s) of Some f \<Rightarrow> cell_of_float f | None \<Rightarrow> Num 0)"
  by (simp add: replace_dollar_then_comma)

lemma astype_float_all_parse:
  "list_all (cuota_parses float_of) xs \<Longrightarrow>
   astype_float float_of (map replace_dollar_comma xs) = Inr (map (clean_currency float_of) xs)"
proof (induction xs)
  case Nil
  show ?case by simp
next
  case (Cons x xs)
  then show ?case
    by (cases x) (auto simp: replace_dollar_then_comma strip_currency_def)
qed

lemma astype_float_some_fails:
  "\<not> list_all (cuota_parses float_of) xs \<Longrightarrow>
   astype_float float_of (map replace_dollar_comma xs) = Inl ValueError"
proof (induction xs)
  case Nil
  then show ?case by simp
next
  case (Cons x xs)
  then show ?case
    by (cases x) (auto simp: strip_currency_def split: option.splits sum.splits)
qed

lemmas float_plain_eval = float_plain_def digit_def nat_of_digits_def strip_currency_def

lemmas tablas_eval = fila_def csv_columns_def

text \<open>
  C1, as amended. In variant 2, \<^verbatim>\<open>clean_currency\<close> strips every \<^verbatim>\<open>$\<close> and \<^verbatim>\<open>,\<close> from a
  text and parses the rest, gives 0.0 when the rest is no number, and returns a value
  that is no text unchanged. In variant 1 the cleaning step of \<^verbatim>\<open>load_data\<close> gives the
  same numeric column as \<^verbatim>\<open>clean_currency\<close> would whenever every text of the column
  parses once stripped; when some text does not, there is no 0.0: \<^verbatim>\<open>load_data\<close> shows
  the ValueError and returns the empty \<^verbatim>\<open>pd.DataFrame()\<close>.
\<close>

theorem currency_cleaning:
  "clean_currency float_of (Str s) =
     (case float_of (strip_currency s) of Some f \<Rightarrow> cell_of_float f | None \<Rightarrow> Num 0)
   \<and> (\<not> is_Str c \<longrightarrow> clean_currency float_of c = c)
   \<and> (SUMA_CUOTAS \<in> set (columns df)
        \<and> list_all (\<lambda>r. cuota_parses float_of (r SUMA_CUOTAS)) (rows df) \<longrightarrow>
      clean_cuotas_v1 float_of df =
        Inr (setitem df SUMA_CUOTAS_NUM
               (map (\<lambda>r. clean_currency float_of (r SUMA_CUOTAS)) (rows df))))
   \<and> (SUMA_CUOTAS \<in> set (columns df')
        \<and> \<not> list_all (\<lambda>r. cuota_parses float_of (r SUMA_CUOTAS)) (rows df') \<longrightarrow>
      load_data_v1 float_of py_upper (Inr df') = (DataFrame, [St_error ValueError]))"
proof (intro conjI impI)
  show "clean_currency float_of (Str s) =
     (case float_of (strip_currency s) of Some f \<Rightarrow> cell_of_float f | None \<Rightarrow> Num 0)"
    by (rule clean_currency_Str)
next
  assume "\<not> is_Str c"
  then show "clean_currency float_of c = c" by (cases c) simp_all
next
  assume h: "SUMA_CUOTAS \<in> set (columns df)
        \<and> list_all (\<lambda>r. cuota_parses float_of (r SUMA_CUOTAS)) (rows df)"
  then have "list_all (cuota_parses float_of) (map (\<lambda>r. r SUMA_CUOTAS) (rows df))"
    by (simp add: list_all_iff)
  from astype_float_all_parse [OF this] h
  show "clean_cuotas_v1 float_of df =
        Inr (setitem df SUMA_CUOTAS_NUM
               (map (\<lambda>r. clean_currency float_of (r SUMA_CUOTAS)) (rows df)))"
    by (simp add: clean_cuotas_v1_def comp_def)
next
  assume h: "SUMA_CUOTAS \<in> set (columns df')
        \<and> \<not> list_all (\<lambda>r. cuota_parses float_of (r SUMA_CUOTAS)) (rows df')"
  then have "\<not> list_all (cuota_parses float_of) (map (\<lambda>r. r SUMA_CUOTAS) (rows df'))"
    by (simp add: list_all_iff)
  from astype_float_some_fails [OF this] h
  show "load_data_v1 float_of py_upper (Inr df') = (DataFrame, [St_error ValueError])"
    by (simp add: load_data_v1_def clean_cuotas_v1_def comp_def)
qed

theorem currency_cleaning_witness:
  "clean_currency float_plain (Str ''$17,509.00'') = Num 17509
   \<and> \<not> is_Str (Num 5) \<and> clean_currency float_plain (Num 5) = Num 5
   \<and> SUMA_CUOTAS \<in> set (columns tabla_juan)
   \<and> list_all (\<lambda>r. cuota_parses float_plain (r SUMA_CUOTAS)) (rows tabla_juan)
   \<and> clean_cuotas_v1 float_plain tabla_juan =
       Inr (setitem tabla_juan SUMA_CUOTAS_NUM [Num 1000])
   \<and> SUMA_CUOTAS \<in> set (columns tabla_cuota_mala)
   \<and> \<not> list_all (\<lambda>r. cuota_parses float_plain (r SUMA_CUOTAS)) (rows tabla_cuota_mala)
   \<and> load_data_v1 float_plain upper_plain (Inr tabla_cuota_mala) = (DataFrame, [St_error ValueError])"
proof -
  note T = currency_cleaning
    [of float_plain "''$17,509.00''" "Num 5" tabla_juan tabla_cuota_mala]
  have a: "float_plain (strip_currency ''$17,509.00'') = Some (Some 17509)"
    by (simp add: float_plain_eval)
  have b: "float_plain (strip_currency ''$1,000.00'') = Some (Some 1000)"
    by (simp add: float_plain_eval)
  have c: "float_plain (strip_currency ''pendiente'') = None"
    by (simp add: float_plain_eval)
  have h3: "SUMA_CUOTAS \<in> set (columns tabla_juan)
      \<and> list_all (\<lambda>r. cuota_parses float_plain (r SUMA_CUOTAS)) (rows tabla_juan)"
    by (simp add: tabla_juan_def tablas_eval b)
  have h4: "SUMA_CUOTAS \<in> set (columns tabla_cuota_mala)
      \<and> \<not> list_all (\<lambda>r. cuota_parses float_plain (r SUMA_CUOTAS)) (rows tabla_cuota_mala)"
    by (simp add: tabla_cuota_mala_def tablas_eval c)
  have e: "map (\<lambda>r. clean_currency float_plain (r SUMA_CUOTAS)) (rows tabla_juan) = [Num 1000]"
    by (simp add: tabla_juan_def tablas_eval replace_dollar_then_comma b)
  from T a h3 h4 e show ?thesis by simp
qed

text \<open>
  The claim as stated fails in variant 1: with the dues text \<^verbatim>\<open>pendiente\<close> in one row,
  \<^verbatim>\<open>load_data\<close> of \<^verbatim>\<open>src/App.py\<close> ends in its \<^verbatim>\<open>except\<close> branch, where variant 2
  gives that row 0.0.
\<close>

theorem currency_cleaning_v1_counterexample:
  "load_data_v1 float_plain upper_plain (Inr tabla_cuota_mala) = (DataFrame, [St_error ValueError])
   \<and> clean_currency float_plain (Str ''pendiente'') = Num 0"
  by (simp add: load_data_v1_def clean_cuotas_v1_def tabla_cuota_mala_def tablas_eval
      float_plain_eval replace.simps)

section \<open>Columns of a frame\<close>

lemma astype_float_length:
  "astype_float float_of xs = Inr ys \<Longrightarrow> length ys = length xs"
proof (induction xs arbitrary: ys)
  case Nil
  then show ?case by simp
next
  case (Cons x xs)
  then show ?case
    by (cases x) (auto split: option.splits sum.splits)
qed

lemma column_zip_update:
  "length xs = length rs \<Longrightarrow>
   map (\<lambda>r. r c') (map (\<lambda>(r, x). r(c := x)) (zip rs xs)) =
     (if c' = c then xs else map (\<lambda>r. r c') rs)"
proof (induction rs arbitrary: xs)
  case Nil
  then show ?case by simp
next
  case (Cons r rs)
  then show ?case by (cases xs) auto
qed

lemma column_setitem:
  "length xs = length (rows df) \<Longrightarrow>
   map (\<lambda>r. r c') (rows (setitem df c xs)) = (if c' = c then xs else map (\<lambda>r. r c') (rows df))"
  using column_zip_update [of xs "rows df" c' c] by (simp add: setitem_def)

lemma column_setitem_scalar:
  "map (\<lambda>r. r c') (rows (setitem_scalar df c x)) =
     (if c' = c then map (\<lambda>r. x) (rows df) else map (\<lambda>r. r c') (rows df))"
  by (simp add: setitem_scalar_def comp_def)

lemma columns_setitem:
  "set (columns (setitem df c xs)) = insert c (set (columns df))"
  by (auto simp: setitem_def)

lemma columns_setitem_scalar:
  "set (columns (setitem_scalar df c x)) = insert c (set (columns df))"
  by (auto simp: setitem_scalar_def)

lemma same_column_same_length:
  "map (\<lambda>r. r c) rs' = map (\<lambda>r. r c) rs \<Longrightarrow> length rs' = length rs"
  using map_eq_imp_length_eq by blast

section \<open>Status normalization\<close>

lemma clean_cuotas_v1_column:
  assumes "clean_cuotas_v1 float_of df = Inr df1" and "c \<noteq> SUMA_CUOTAS_NUM"
  shows "map (\<lambda>r. r c) (rows df1) = map (\<lambda>r. r c) (rows df)"
proof (cases "SUMA_CUOTAS \<in> set (columns df)")
  case False
  with assms show ?thesis by (simp add: clean_cuotas_v1_def)
next
  case True
  with assms(1) obtain xs where
    xs: "astype_float float_of (map (\<lambda>r. replace_dollar_comma (r SUMA_CUOTAS)) (rows df)) = Inr xs"
    and df1: "df1 = setitem df SUMA_CUOTAS_NUM xs"
    by (auto simp: clean_cuotas_v1_def split: sum.splits)
  from astype_float_length [OF xs] have "length xs = length (rows df)" by simp
  from column_setitem [OF this, of c SUMA_CUOTAS_NUM] assms(2) df1 show ?thesis by simp
qed

lemma clean_cuotas_v1_columns:
  assumes "clean_cuotas_v1 float_of df = Inr df1"
  shows "set (columns df) \<subseteq> set (columns df1)"
proof (cases "SUMA_CUOTAS \<in> set (columns df)")
  case False
  with assms show ?thesis by (simp add: clean_cuotas_v1_def)
next
  case True
  with assms(1) obtain xs where df1: "df1 = setitem df SUMA_CUOTAS_NUM xs"
    by (auto simp: clean_cuotas_v1_def split: sum.splits)
  show ?thesis unfolding df1 columns_setitem by blast
qed

lemma normalize_estado_v1_column:
  assumes "normalize_estado_v1 py_upper df1 = Inr t" and "ESTADO_AFILIADO \<in> set (columns df1)"
  shows "map (\<lambda>r. r ESTADO_AFILIADO) (rows t) =
         str_upper py_upper (fillna (Str ''DESCONOCIDO'') (map (\<lambda>r. r ESTADO_AFILIADO) (rows df1)))"
proof -
  let ?es = "fillna (Str ''DESCONOCIDO'') (map (\<lambda>r. r ESTADO_AFILIADO) (rows df1))"
  from assms have t: "t = setitem df1 ESTADO_AFILIADO (str_upper py_upper ?es)"
    by (simp add: normalize_estado_v1_def str_accessor_def split: sum.splits if_splits)
  have "length (str_upper py_upper ?es) = length (rows df1)"
    by (simp add: str_upper_def fillna_def)
  from column_setitem [OF this, of ESTADO_AFILIADO ESTADO_AFILIADO] t show ?thesis by simp
qed

lemma upper_fill_normalized:
  "text_or_missing c \<Longrightarrow>
   upper_cell py_upper (if c = NaN then Str ''DESCONOCIDO'' else c) = normalized_status py_upper c"
  by (cases c) (simp_all add: upper_def ascii_def upper_char_def)

lemma load_data_v1_steps:
  assumes "load_data_v1 float_of py_upper (Inr df) = (t, [])"
  obtains df1 where "clean_cuotas_v1 float_of df = Inr df1" and "normalize_estado_v1 py_upper df1 = Inr t"
  using assms by (auto simp: load_data_v1_def split: sum.splits)

lemma load_data_v1_failed:
  "load_data_v1 float_of py_upper parsed = (t, m # ms) \<Longrightarrow> t = DataFrame"
  by (auto simp: load_data_v1_def split: sum.splits)

lemma column_cong:
  assumes "map (\<lambda>r. r c) rs' = map (\<lambda>r. r c) rs"
  shows "map (\<lambda>r. g (r c)) rs' = map (\<lambda>r. g (r c)) rs"
proof -
  have "map g (map (\<lambda>r. r c) rs') = map g (map (\<lambda>r. r c) rs)"
    using assms by simp
  then show ?thesis by (simp add: comp_def)
qed

lemma clean_cuotas_v2_column:
  "c \<noteq> SUMA_CUOTAS_NUM \<Longrightarrow>
   map (\<lambda>r. r c) (rows (clean_cuotas_v2 float_of df)) = map (\<lambda>r. r c) (rows df)"
  by (simp add: clean_cuotas_v2_def column_setitem column_setitem_scalar)

lemma clean_cuotas_v2_length:
  "length (rows (clean_cuotas_v2 float_of df)) = length (rows df)"
  by (simp add: clean_cuotas_v2_def setitem_def setitem_scalar_def)

lemma clean_cuotas_v2_columns:
  "set (columns (clean_cuotas_v2 float_of df)) = insert SUMA_CUOTAS_NUM (set (columns df))"
  by (simp add: clean_cuotas_v2_def columns_setitem columns_setitem_scalar)

text \<open>What a successful \<^verbatim>\<open>load_data\<close> of variant 2 returns, step by step.\<close>

lemma load_data_v2_steps:
  assumes "load_data_v2 float_of (Inr df) = Inr t"
  defines "df1 \<equiv> clean_cuotas_v2 float_of df"
  defines "df2 \<equiv> setitem df1 ESTADO_AFILIADO
                     (fillna (Str ''DESCONOCIDO'') (map (\<lambda>r. r ESTADO_AFILIADO) (rows df1)))"
  shows "t = setitem df2 REGIONAL (fillna (Str ''SIN ASIGNAR'') (map (\<lambda>r. r REGIONAL) (rows df2)))"
    and "ESTADO_AFILIADO \<in> set (columns df)" and "REGIONAL \<in> set (columns df)"
proof -
  from assms(1) have e: "ESTADO_AFILIADO \<in> set (columns df1)"
    unfolding df1_def by (auto simp: load_data_v2_def Let_def getitem_def split: if_splits)
  then show "ESTADO_AFILIADO \<in> set (columns df)"
    by (simp add: df1_def clean_cuotas_v2_columns)
  from assms(1) e have g: "REGIONAL \<in> set (columns df2)"
    unfolding df1_def df2_def
    by (auto simp: load_data_v2_def Let_def getitem_def split: if_splits)
  then show "REGIONAL \<in> set (columns df)"
    by (simp add: df2_def df1_def columns_setitem clean_cuotas_v2_columns)
  from assms(1) e g show "t = setitem df2 REGIONAL (fillna (Str ''SIN ASIGNAR'') (map (\<lambda>r. r REGIONAL) (rows df2)))"
    unfolding df1_def df2_def
    by (simp add: load_data_v2_def Let_def getitem_def)
qed

lemma load_data_v2_column:
  assumes "load_data_v2 float_of (Inr df) = Inr t"
  shows "map (\<lambda>r. r c) (rows t) =
     (if c = REGIONAL then map (\<lambda>r. if r REGIONAL = NaN then Str ''SIN ASIGNAR'' else r REGIONAL) (rows df)
      else if c = ESTADO_AFILIADO then map (\<lambda>r. filled_status (r ESTADO_AFILIADO)) (rows df)
      else map (\<lambda>r. r c) (rows (clean_cuotas_v2 float_of df)))"
proof -
  let ?df1 = "clean_cuotas_v2 float_of df"
  let ?es = "fillna (Str ''DESCONOCIDO'') (map (\<lambda>r. r ESTADO_AFILIADO) (rows ?df1))"
  let ?df2 = "setitem ?df1 ESTADO_AFILIADO ?es"
  let ?gs = "fillna (Str ''SIN ASIGNAR'') (map (\<lambda>r. r REGIONAL) (rows ?df2))"
  have t: "t = setitem ?df2 REGIONAL ?gs"
    using load_data_v2_steps(1) [OF assms] .
  have l1: "length ?es = length (rows ?df1)" by (simp add: fillna_def)
  have c2: "map (\<lambda>r. r c') (rows ?df2) = (if c' = ESTADO_AFILIADO then ?es else map (\<lambda>r. r c') (rows ?df1))" for c'
    using column_setitem [OF l1] .
  have l2: "length ?gs = length (rows ?df2)" by (simp add: fillna_def)
  have c3: "map (\<lambda>r. r c) (rows t) = (if c = REGIONAL then ?gs else map (\<lambda>r. r c) (rows ?df2))"
    unfolding t using column_setitem [OF l2] .
  have e: "map (\<lambda>r. r ESTADO_AFILIADO) (rows ?df1) = map (\<lambda>r. r ESTADO_AFILIADO) (rows df)"
    by (rule clean_cuotas_v2_column) simp
  have g: "map (\<lambda>r. r REGIONAL) (rows ?df1) = map (\<lambda>r. r REGIONAL) (rows df)"
    by (rule clean_cuotas_v2_column) simp
  have g2: "map (\<lambda>r. r REGIONAL) (rows ?df2) = map (\<lambda>r. r REGIONAL) (rows df)"
    using c2 [of REGIONAL] g by simp
  show ?thesis
  proof (cases "c = REGIONAL")
    case True
    have "?gs = map (\<lambda>r. if r REGIONAL = NaN then Str ''SIN ASIGNAR'' else r REGIONAL) (rows df)"
      using column_cong [OF g2, of "\<lambda>x. if x = NaN then Str ''SIN ASIGNAR'' else x"]
      by (simp add: fillna_def comp_def)
    with True c3 show ?thesis by simp
  next
    case False
    note nr = this
    show ?thesis
    proof (cases "c = ESTADO_AFILIADO")
      case True
      have "?es = map (\<lambda>r. filled_status (r ESTADO_AFILIADO)) (rows df)"
        using column_cong [OF e, of filled_status]
        by (simp add: fillna_def comp_def filled_status_def)
      with True nr c3 c2 [of c] show ?thesis by simp
    next
      case False
      then show ?thesis using nr c3 c2 [of c] by simp
    qed
  qed
qed

lemma load_v1_juan:
  "load_data_v1 float_plain upper_plain (Inr tabla_juan) =
     (setitem (setitem tabla_juan SUMA_CUOTAS_NUM [Num 1000]) ESTADO_AFILIADO [Str ''ACTIVO''], [])"
proof -
  have b: "float_plain (strip_currency ''$1,000.00'') = Some (Some 1000)"
    by (simp add: float_plain_eval)
  have 1: "clean_cuotas_v1 float_plain tabla_juan = Inr (setitem tabla_juan SUMA_CUOTAS_NUM [Num 1000])"
    using b by (simp add: clean_cuotas_v1_def tabla_juan_def tablas_eval strip_currency_def)
  have 2: "normalize_estado_v1 upper_plain (setitem tabla_juan SUMA_CUOTAS_NUM [Num 1000]) =
      Inr (setitem (setitem tabla_juan SUMA_CUOTAS_NUM [Num 1000]) ESTADO_AFILIADO [Str ''ACTIVO''])"
    by (simp add: normalize_estado_v1_def setitem_def tabla_juan_def tablas_eval fillna_def
        str_accessor_def str_upper_def upper_def ascii_def upper_char_def)
  show ?thesis by (simp add: load_data_v1_def 1 2)
qed

lemma load_v2_juan:
  "load_data_v2 float_plain (Inr tabla_juan) =
     Inr (setitem (setitem (setitem tabla_juan SUMA_CUOTAS_NUM [Num 1000])
                      ESTADO_AFILIADO [Str ''activo'']) REGIONAL [Str ''SUR''])"
proof -
  have b: "float_plain (strip_currency ''$1,000.00'') = Some (Some 1000)"
    by (simp add: float_plain_eval)
  have 1: "clean_cuotas_v2 float_plain tabla_juan = setitem tabla_juan SUMA_CUOTAS_NUM [Num 1000]"
    using b by (simp add: clean_cuotas_v2_def tabla_juan_def tablas_eval replace_dollar_then_comma)
  show ?thesis
    by (simp add: load_data_v2_def 1 Let_def)
       (simp add: getitem_def setitem_def tabla_juan_def tablas_eval fillna_def)
qed

lemma load_v1_cuota_mala:
  "load_data_v1 float_plain upper_plain (Inr tabla_cuota_mala) = (DataFrame, [St_error ValueError])"
proof -
  have c: "float_plain (strip_currency ''pendiente'') = None"
    by (simp add: float_plain_eval)
  have "\<not> list_all (cuota_parses float_plain)
           (map (\<lambda>r. r SUMA_CUOTAS) (rows tabla_cuota_mala))"
    using c by (simp add: tabla_cuota_mala_def tablas_eval)
  from astype_float_some_fails [OF this] show ?thesis
    by (simp add: load_data_v1_def clean_cuotas_v1_def comp_def tabla_cuota_mala_def tablas_eval)
qed

lemma load_data_v1_estado:
  assumes "ESTADO_AFILIADO \<in> set (columns df)"
    and "list_all (\<lambda>r. text_or_missing (r ESTADO_AFILIADO)) (rows df)"
    and "load_data_v1 float_of py_upper (Inr df) = (t, [])"
  shows "map (\<lambda>r. r ESTADO_AFILIADO) (rows t) =
      map (\<lambda>r. normalized_status py_upper (r ESTADO_AFILIADO)) (rows df)"
proof -
  from assms(3) obtain df1 where 1: "clean_cuotas_v1 float_of df = Inr df1"
    and 2: "normalize_estado_v1 py_upper df1 = Inr t"
    by (blast elim: load_data_v1_steps)
  have col: "map (\<lambda>r. r ESTADO_AFILIADO) (rows df1) = map (\<lambda>r. r ESTADO_AFILIADO) (rows df)"
    by (rule clean_cuotas_v1_column [OF 1]) simp
  have mem: "ESTADO_AFILIADO \<in> set (columns df1)"
    using clean_cuotas_v1_columns [OF 1] assms(1) by blast
  have "map (\<lambda>r. r ESTADO_AFILIADO) (rows t) =
      map (\<lambda>r. upper_cell py_upper (if r ESTADO_AFILIADO = NaN then Str ''DESCONOCIDO''
                             else r ESTADO_AFILIADO)) (rows df1)"
    using normalize_estado_v1_column [OF 2 mem] by (simp add: str_upper_def fillna_def comp_def)
  also have "\<dots> = map (\<lambda>r. upper_cell py_upper (if r ESTADO_AFILIADO = NaN then Str ''DESCONOCIDO''
                             else r ESTADO_AFILIADO)) (rows df)"
    using column_cong [OF col, of "\<lambda>x. upper_cell py_upper (if x = NaN then Str ''DESCONOCIDO'' else x)"] .
  also have "\<dots> = map (\<lambda>r. normalized_status py_upper (r ESTADO_AFILIADO)) (rows df)"
  proof (rule map_cong [OF refl])
    fix r assume "r \<in> set (rows df)"
    with assms(2) have "text_or_missing (r ESTADO_AFILIADO)" by (simp add: list_all_iff)
    then show "upper_cell py_upper (if r ESTADO_AFILIADO = NaN then Str ''DESCONOCIDO''
                             else r ESTADO_AFILIADO) = normalized_status py_upper (r ESTADO_AFILIADO)"
      by (rule upper_fill_normalized)
  qed
  finally show ?thesis .
qed

text \<open>
  C4, as amended. In variant 1, for a file whose status column is text (entries are
  texts or missing), a load that ends without error stores for every record the
  uppercase of its status text, or the sentinel \<^verbatim>\<open>DESCONOCIDO\<close> where the entry was
  missing; a load that ends with an error returns no record at all. In variant 2 a
  successful load fills missing entries with the sentinel, so that no stored status
  is missing, and leaves every other status exactly as the file has it: the case is
  not converted at load time (the Dashboard converts it when it compares).
\<close>

theorem status_normalization:
  "(ESTADO_AFILIADO \<in> set (columns df)
      \<and> list_all (\<lambda>r. text_or_missing (r ESTADO_AFILIADO)) (rows df)
      \<and> load_data_v1 float_of py_upper (Inr df) = (t, []) \<longrightarrow>
    map (\<lambda>r. r ESTADO_AFILIADO) (rows t) =
      map (\<lambda>r. normalized_status py_upper (r ESTADO_AFILIADO)) (rows df))
   \<and> (load_data_v1 float_of py_upper parsed = (t', m # ms) \<longrightarrow> rows t' = [])
   \<and> (load_data_v2 float_of (Inr df2) = Inr t2 \<longrightarrow>
        map (\<lambda>r. r ESTADO_AFILIADO) (rows t2) =
          map (\<lambda>r. filled_status (r ESTADO_AFILIADO)) (rows df2)
        \<and> list_all (\<lambda>r. r ESTADO_AFILIADO \<noteq> NaN) (rows t2))"
proof (intro conjI impI)
  assume h: "ESTADO_AFILIADO \<in> set (columns df)
      \<and> list_all (\<lambda>r. text_or_missing (r ESTADO_AFILIADO)) (rows df)
      \<and> load_data_v1 float_of py_upper (Inr df) = (t, [])"
  then show "map (\<lambda>r. r ESTADO_AFILIADO) (rows t) =
      map (\<lambda>r. normalized_status py_upper (r ESTADO_AFILIADO)) (rows df)"
    using load_data_v1_estado [of df float_of py_upper t] by simp
next
  assume "load_data_v1 float_of py_upper parsed = (t', m # ms)"
  from load_data_v1_failed [OF this] show "rows t' = []" by (simp add: DataFrame_def)
next
  assume h: "load_data_v2 float_of (Inr df2) = Inr t2"
  from load_data_v2_column [OF h, of ESTADO_AFILIADO]
  show c: "map (\<lambda>r. r ESTADO_AFILIADO) (rows t2) =
          map (\<lambda>r. filled_status (r ESTADO_AFILIADO)) (rows df2)" by simp
  have "list_all (\<lambda>c. c \<noteq> NaN) (map (\<lambda>r. filled_status (r ESTADO_AFILIADO)) (rows df2))"
    by (auto simp: list_all_iff filled_status_def)
  then have "list_all (\<lambda>c. c \<noteq> NaN) (map (\<lambda>r. r ESTADO_AFILIADO) (rows t2))"
    by (simp only: c)
  then show "list_all (\<lambda>r. r ESTADO_AFILIADO \<noteq> NaN) (rows t2)"
    by (simp add: list_all_iff)
qed

theorem status_normalization_witness:
  "ESTADO_AFILIADO \<in> set (columns tabla_juan)
   \<and> list_all (\<lambda>r. text_or_missing (r ESTADO_AFILIADO)) (rows tabla_juan)
   \<and> load_data_v1 float_plain upper_plain (Inr tabla_juan) =
       (setitem (setitem tabla_juan SUMA_CUOTAS_NUM [Num 1000]) ESTADO_AFILIADO [Str ''ACTIVO''], [])
   \<and> map (\<lambda>r. r ESTADO_AFILIADO)
        (rows (setitem (setitem tabla_juan SUMA_CUOTAS_NUM [Num 1000])
                 ESTADO_AFILIADO [Str ''ACTIVO''])) = [Str ''ACTIVO'']
   \<and> load_data_v1 float_plain upper_plain (Inr tabla_cuota_mala) = (DataFrame, [St_error ValueError])
   \<and> rows DataFrame = []
   \<and> load_data_v2 float_plain (Inr tabla_juan) =
       Inr (setitem (setitem (setitem tabla_juan SUMA_CUOTAS_NUM [Num 1000])
                      ESTADO_AFILIADO [Str ''activo'']) REGIONAL [Str ''SUR''])
   \<and> map (\<lambda>r. r ESTADO_AFILIADO)
        (rows (setitem (setitem (setitem tabla_juan SUMA_CUOTAS_NUM [Num 1000])
                      ESTADO_AFILIADO [Str ''activo'']) REGIONAL [Str ''SUR''])) = [Str ''activo'']
   \<and> list_all (\<lambda>r. r ESTADO_AFILIADO \<noteq> NaN)
        (rows (setitem (setitem (setitem tabla_juan SUMA_CUOTAS_NUM [Num 1000])
                      ESTADO_AFILIADO [Str ''activo'']) REGIONAL [Str ''SUR'']))"
proof -
  let ?t1 = "setitem (setitem tabla_juan SUMA_CUOTAS_NUM [Num 1000]) ESTADO_AFILIADO [Str ''ACTIVO'']"
  let ?t2 = "setitem (setitem (setitem tabla_juan SUMA_CUOTAS_NUM [Num 1000])
                      ESTADO_AFILIADO [Str ''activo'']) REGIONAL [Str ''SUR'']"
  note T = status_normalization
    [where df = tabla_juan and float_of = float_plain and py_upper = upper_plain and t = ?t1
       and parsed = "Inr tabla_cuota_mala" and t' = DataFrame and m = "St_error ValueError"
       and ms = "[]" and ?df2.0 = tabla_juan and ?t2.0 = ?t2]
  have h1: "ESTADO_AFILIADO \<in> set (columns tabla_juan)
     \<and> list_all (\<lambda>r. text_or_missing (r ESTADO_AFILIADO)) (rows tabla_juan)"
    by (simp add: tabla_juan_def tablas_eval)
  have n: "map (\<lambda>r. normalized_status upper_plain (r ESTADO_AFILIADO)) (rows tabla_juan) = [Str ''ACTIVO'']"
    by (simp add: tabla_juan_def tablas_eval upper_def ascii_def upper_char_def)
  have f: "map (\<lambda>r. filled_status (r ESTADO_AFILIADO)) (rows tabla_juan) = [Str ''activo'']"
    by (simp add: tabla_juan_def tablas_eval filled_status_def)
  from T h1 n f load_v1_juan load_v1_cuota_mala load_v2_juan show ?thesis
    by simp
qed

text \<open>
  The claim as stated fails in variant 2: the status \<^verbatim>\<open>activo\<close> of the file is stored
  as it is, not as \<^verbatim>\<open>ACTIVO\<close>.
\<close>

theorem status_uppercase_v2_counterexample:
  "load_data_v2 float_plain (Inr tabla_juan) =
       Inr (setitem (setitem (setitem tabla_juan SUMA_CUOTAS_NUM [Num 1000])
                      ESTADO_AFILIADO [Str ''activo'']) REGIONAL [Str ''SUR''])
   \<and> map (\<lambda>r. r ESTADO_AFILIADO)
        (rows (setitem (setitem (setitem tabla_juan SUMA_CUOTAS_NUM [Num 1000])
                      ESTADO_AFILIADO [Str ''activo'']) REGIONAL [Str ''SUR''])) = [Str ''activo'']
   \<and> upper upper_plain ''activo'' = ''ACTIVO''"
  by (simp add: load_v2_juan)
     (simp add: setitem_def tabla_juan_def tablas_eval upper_def ascii_def upper_char_def)

section \<open>A source that cannot be parsed\<close>

text \<open>
  C3, as amended. When \<^verbatim>\<open>pd.read_csv\<close> raises: variant 1's \<^verbatim>\<open>load_data\<close> catches
  the exception, shows it with \<^verbatim>\<open>st.error\<close> and returns \<^verbatim>\<open>pd.DataFrame()\<close>, an empty
  table without any column, and the script then shows its warning in place of the
  sections; variant 2's initial load falls back, without a message, to an empty table
  that has the six expected column headers. Neither path raises.
\<close>

theorem unparsable_source:
  "load_data_v1 float_of py_upper (Inl e) = (DataFrame, [St_error e])
   \<and> main_v1 float_of py_upper re_compile icase num_text (Inl e) menu = Inr ([St_error e, St_warning], No_screen)
   \<and> session_init float_of (Inl e) = \<lparr>df_afiliados = df_estructurado\<rparr>
   \<and> columns df_estructurado =
        [CEDULA, NOMBRES, REGIONAL, CIUDAD, ESTADO_AFILIADO, SUMA_CUOTAS_NUM]
   \<and> rows df_estructurado = []"
proof (intro conjI)
  show 1: "load_data_v1 float_of py_upper (Inl e) = (DataFrame, [St_error e])"
    by (simp add: load_data_v1_def)
  show "main_v1 float_of py_upper re_compile icase num_text (Inl e) menu = Inr ([St_error e, St_warning], No_screen)"
    by (simp add: main_v1_def 1 df_empty_def DataFrame_def)
  show "session_init float_of (Inl e) = \<lparr>df_afiliados = df_estructurado\<rparr>"
    by (simp add: session_init_def load_data_v2_def)
  show "columns df_estructurado =
        [CEDULA, NOMBRES, REGIONAL, CIUDAD, ESTADO_AFILIADO, SUMA_CUOTAS_NUM]"
    by (simp add: df_estructurado_def)
  show "rows df_estructurado = []"
    by (simp add: df_estructurado_def)
qed

text \<open>
  The claim as stated fails: the empty table of variant 1 carries no column header,
  and in variant 2 the re-import of an unparsable upload raises instead of showing a
  message.
\<close>

theorem unparsable_source_counterexample:
  "columns (fst (load_data_v1 float_plain upper_plain (Inl ReadError))) = []
   \<and> confirmar_importacion float_plain \<lparr>df_afiliados = df_estructurado\<rparr> (Inl ReadError)
       = Inl ReadError"
  by (simp add: load_data_v1_def DataFrame_def confirmar_importacion_def load_data_v2_def)

section \<open>Missing columns\<close>

text \<open>
  C7. A file without the column ESTADO_AFILIADO: \<^verbatim>\<open>load_data\<close> of variant 2 raises
  KeyError, and so does the import that calls it, while variant 1 loads the same file
  without any error.
\<close>

theorem missing_estado_v2_raises:
  "load_data_v2 float_plain (Inr tabla_sin_estado) = Inl (KeyError ESTADO_AFILIADO)
   \<and> confirmar_importacion float_plain \<lparr>df_afiliados = df_estructurado\<rparr> (Inr tabla_sin_estado)
       = Inl (KeyError ESTADO_AFILIADO)
   \<and> snd (load_data_v1 float_plain upper_plain (Inr tabla_sin_estado)) = []"
proof -
  have b: "float_plain (strip_currency ''$1,000.00'') = Some (Some 1000)"
    by (simp add: float_plain_eval)
  have 1: "load_data_v2 float_plain (Inr tabla_sin_estado) = Inl (KeyError ESTADO_AFILIADO)"
    by (simp add: load_data_v2_def Let_def getitem_def clean_cuotas_v2_columns tabla_sin_estado_def)
  have 2: "clean_cuotas_v1 float_plain tabla_sin_estado =
      Inr (setitem tabla_sin_estado SUMA_CUOTAS_NUM [Num 1000])"
    using b by (simp add: clean_cuotas_v1_def tabla_sin_estado_def strip_currency_def)
  have 3: "normalize_estado_v1 upper_plain (setitem tabla_sin_estado SUMA_CUOTAS_NUM [Num 1000]) =
      Inr (setitem tabla_sin_estado SUMA_CUOTAS_NUM [Num 1000])"
    by (simp add: normalize_estado_v1_def columns_setitem tabla_sin_estado_def)
  show ?thesis
    by (simp add: 1 confirmar_importacion_def load_data_v1_def 2 3)
qed

section \<open>Export\<close>

text \<open>
  C9. The export of variant 2 serialises the table of the session as it is, with
  \<^verbatim>\<open>to_csv\<close> called with the header (its default) and without the index column, encodes
  the text as UTF-8 and offers it under the name \<^verbatim>\<open>DB_AFILIADOS_ACTUALIZADA.csv\<close>; the
  session after the export is the session before it.
\<close>

theorem export_is_pure_read:
  "exportar to_csv encode st =
     (st, \<lparr>data = encode ''utf-8'' (to_csv True False (df_afiliados st)),
           file_name = ''DB_AFILIADOS_ACTUALIZADA.csv'', mime = ''text/csv''\<rparr>)
   \<and> fst (exportar to_csv encode st) = st"
  by (simp add: exportar_def)

section \<open>The percentage of the Dashboard\<close>

lemma getitem_error: "getitem df c = Inl e \<Longrightarrow> e = KeyError c"
  by (simp add: getitem_def split: if_splits)

lemma series_sum_error: "series_sum xs = Inl e \<Longrightarrow> e = TypeError"
  by (simp add: series_sum_def split: if_splits)

lemma str_accessor_error: "str_accessor xs = Inl e \<Longrightarrow> e = AttributeError"
  by (simp add: str_accessor_def split: if_splits)

lemma str_contains_error: "str_contains re_compile icase cs na pat xs = Inl e \<Longrightarrow> e = ReError"
  by (auto simp: str_contains_def compile_pat_def split: sum.splits if_splits option.splits)

lemma kpis_v1_error: "kpis_v1 df = Inl e \<Longrightarrow> e \<noteq> ZeroDivisionError"
  by (auto simp: kpis_v1_def split: sum.splits if_splits
      dest: getitem_error series_sum_error)

lemma kpis_v1_total: "kpis_v1 df = Inr k \<Longrightarrow> total_afiliados k = length (rows df)"
  by (auto simp: kpis_v1_def len_df_def split: sum.splits)

lemma dashboard_v1_error:
  assumes "rows df \<noteq> []" and "dashboard_v1 df = Inl e"
  shows "e \<noteq> ZeroDivisionError"
proof (cases "kpis_v1 df")
  case (Inl e')
  with assms(2) have "e = e'" by (simp add: dashboard_v1_def)
  with Inl show ?thesis by (simp add: kpis_v1_error)
next
  case (Inr k)
  from kpis_v1_total [OF Inr] assms(1) have "real (total_afiliados k) \<noteq> 0" by simp
  then have "py_truediv (real (activos k)) (real (total_afiliados k)) =
      Inr (real (activos k) / real (total_afiliados k))"
    by (simp add: py_truediv_def)
  with assms(2) Inr show ?thesis
    by (auto simp: dashboard_v1_def split: sum.splits dest: getitem_error)
qed

lemma search_v1_error: "search_v1 re_compile icase num_text df q = Inl e \<Longrightarrow> e \<noteq> ZeroDivisionError"
  by (auto simp: search_v1_def split: sum.splits
      dest: getitem_error str_accessor_error str_contains_error)

lemma gestion_v1_error:
  "gestion_v1 re_compile icase num_text df submit q = Inl e \<Longrightarrow> e \<noteq> ZeroDivisionError"
  by (auto simp: gestion_v1_def new_member_v1_def split: sum.splits option.splits
      dest: getitem_error search_v1_error)

lemma resumen_regional_error: "resumen_regional df = Inl e \<Longrightarrow> e \<noteq> ZeroDivisionError"
  by (auto simp: resumen_regional_def split: sum.splits if_splits dest: getitem_error)

lemma main_v1_no_zero_division:
  "main_v1 float_of py_upper re_compile icase num_text parsed menu \<noteq> Inl ZeroDivisionError"
proof (cases "load_data_v1 float_of py_upper parsed")
  case (Pair df msgs)
  show ?thesis
  proof (cases "df_empty df")
    case True
    with Pair show ?thesis by (simp add: main_v1_def)
  next
    case False
    then have ne: "rows df \<noteq> []" by (simp add: df_empty_def)
    show ?thesis
    proof (cases menu)
      case Dashboard
      with Pair False dashboard_v1_error [OF ne] show ?thesis
        by (auto simp: main_v1_def split: sum.splits)
    next
      case (Gestion_de_Afiliados submit q)
      with Pair False gestion_v1_error [of re_compile icase num_text df submit q] show ?thesis
        by (auto simp: main_v1_def split: sum.splits)
    next
      case Reportes_por_Regional
      with Pair False resumen_regional_error [of df] show ?thesis
        by (auto simp: main_v1_def split: sum.splits)
    qed
  qed
qed

text \<open>
  C10. Variant 1 never ends in a division by zero: the Dashboard, and with it the
  quotient of the active count by the total count, is computed only when the loaded
  table is not empty, and then the total count is at least 1 and the quotient is
  defined.
\<close>

theorem dashboard_division_guarded:
  "main_v1 float_of py_upper re_compile icase num_text parsed menu \<noteq> Inl ZeroDivisionError
   \<and> (\<not> df_empty df \<and> kpis_v1 df = Inr k \<longrightarrow>
        1 \<le> total_afiliados k
        \<and> py_truediv (real (activos k)) (real (total_afiliados k)) =
            Inr (real (activos k) / real (total_afiliados k)))"
proof (intro conjI impI)
  show "main_v1 float_of py_upper re_compile icase num_text parsed menu \<noteq> Inl ZeroDivisionError"
    by (rule main_v1_no_zero_division)
next
  assume h: "\<not> df_empty df \<and> kpis_v1 df = Inr k"
  then have "rows df \<noteq> []" by (simp add: df_empty_def)
  with h kpis_v1_total [of df k] show "1 \<le> total_afiliados k"
    by (cases "rows df") simp_all
  then show "py_truediv (real (activos k)) (real (total_afiliados k)) =
            Inr (real (activos k) / real (total_afiliados k))"
    by (simp add: py_truediv_def)
qed

lemma juan_v1_frame:
  "columns juan_v1 = csv_columns @ [SUMA_CUOTAS_NUM]"
  "rows juan_v1 = [(fila (Num 123) (Str ''Juan Perez'') (Str ''SUR'') (Str ''ACTIVO'') (Str ''$1,000.00''))
                     (SUMA_CUOTAS_NUM := Num 1000)]"
  by (simp_all add: juan_v1_def setitem_def tabla_juan_def tablas_eval fun_eq_iff)

lemma juan_v2_frame:
  "columns juan_v2 = csv_columns @ [SUMA_CUOTAS_NUM]"
  "rows juan_v2 = [(fila (Num 123) (Str ''Juan Perez'') (Str ''SUR'') (Str ''activo'') (Str ''$1,000.00''))
                     (SUMA_CUOTAS_NUM := Num 1000)]"
  by (simp_all add: juan_v2_def setitem_def tabla_juan_def tablas_eval fun_eq_iff)

lemma kpis_v1_juan:
  "kpis_v1 juan_v1 =
     Inr \<lparr>total_afiliados = 1, activos = 1, retirados = 0, total_recaudo = 1000\<rparr>"
  by (simp add: kpis_v1_def getitem_def juan_v1_frame tablas_eval series_sum_def
      len_df_def select_rows_def eq_mask_def)

theorem dashboard_division_guarded_witness:
  "main_v1 float_plain upper_plain no_regex icase_plain cedula_text (Inr tabla_juan) Dashboard \<noteq> Inl ZeroDivisionError
   \<and> \<not> df_empty juan_v1
   \<and> kpis_v1 juan_v1 =
        Inr \<lparr>total_afiliados = 1, activos = 1, retirados = 0, total_recaudo = 1000\<rparr>
   \<and> py_truediv 1 1 = Inr 1"
proof -
  let ?k = "\<lparr>total_afiliados = 1, activos = 1, retirados = 0, total_recaudo = 1000\<rparr>"
  note T = dashboard_division_guarded
    [where float_of = float_plain and py_upper = upper_plain and re_compile = no_regex
       and icase = icase_plain and num_text = cedula_text
       and parsed = "Inr tabla_juan" and menu = Dashboard and df = juan_v1 and k = ?k]
  have h: "\<not> df_empty juan_v1"
    by (simp add: df_empty_def juan_v1_frame tablas_eval)
  from T h kpis_v1_juan show ?thesis by simp
qed

section \<open>The indicators of the Dashboard\<close>

lemma filter_by_mask: "map fst (filter snd (zip rs (map p rs))) = filter p rs"
  by (induction rs) simp_all

lemma len_select_eq_mask:
  "len_df (select_rows df (eq_mask (map (\<lambda>r. g (r c)) (rows df)) s)) =
     count_records (\<lambda>r. g (r c) = Str s) df"
proof -
  have "eq_mask (map (\<lambda>r. g (r c)) (rows df)) s = map (\<lambda>r. g (r c) = Str s) (rows df)"
    by (simp add: eq_mask_def comp_def)
  then show ?thesis
    by (simp add: len_df_def select_rows_def count_records_def filter_by_mask)
qed

lemma series_sum_numeric:
  "numeric_column c df \<Longrightarrow>
   series_sum (map (\<lambda>r. r c) (rows df)) = Inr (sum_list (map (\<lambda>r. num_val (r c)) (rows df)))"
  by (simp add: series_sum_def numeric_column_def list_ex_iff comp_def)


lemma kpis_v1_value:
  assumes "ESTADO_AFILIADO \<in> set (columns t)"
    and "SUMA_CUOTAS_NUM \<in> set (columns t) \<Longrightarrow> numeric_column SUMA_CUOTAS_NUM t"
  shows "kpis_v1 t =
     Inr \<lparr>total_afiliados = length (rows t),
          activos = count_records (\<lambda>r. r ESTADO_AFILIADO = Str ''ACTIVO'') t,
          retirados = count_records (\<lambda>r. r ESTADO_AFILIADO = Str ''RETIRADO'') t,
          total_recaudo = (if SUMA_CUOTAS_NUM \<in> set (columns t) then sum_cuotas (rows t) else 0)\<rparr>"
proof -
  have m: "length (rows (select_rows t (eq_mask (map (\<lambda>r. r ESTADO_AFILIADO) (rows t)) s))) =
      count_records (\<lambda>r. r ESTADO_AFILIADO = Str s) t" for s
    using len_select_eq_mask [of t "\<lambda>x. x" ESTADO_AFILIADO s] by (simp add: len_df_def)
  show ?thesis
  proof (cases "SUMA_CUOTAS_NUM \<in> set (columns t)")
    case True
    from series_sum_numeric [OF assms(2) [OF True]] True assms(1) show ?thesis
      by (simp add: kpis_v1_def getitem_def m len_df_def sum_cuotas_def)
  next
    case False
    with assms(1) show ?thesis
      by (simp add: kpis_v1_def getitem_def m len_df_def)
  qed
qed


lemma load_data_v2_columns:
  assumes "load_data_v2 float_of (Inr df) = Inr t"
  shows "set (columns t) = insert SUMA_CUOTAS_NUM (set (columns df))"
proof -
  note s = load_data_v2_steps [OF assms]
  show ?thesis
    unfolding s(1) columns_setitem clean_cuotas_v2_columns using s(2,3) by auto
qed





lemma sin_cuotas_v2_frame:
  "columns sin_cuotas_v2 = [CEDULA, NOMBRES, REGIONAL, ESTADO_AFILIADO, SUMA_CUOTAS_NUM]"
  "rows sin_cuotas_v2 =
     [(\<lambda>c. NaN)(CEDULA := Num 123, NOMBRES := Str ''Juan Perez'', REGIONAL := Str ''SUR'',
                ESTADO_AFILIADO := Str ''ACTIVO'', SUMA_CUOTAS_NUM := Num 0)]"
  by (simp_all add: sin_cuotas_v2_def setitem_def setitem_scalar_def tabla_sin_cuotas_def fun_eq_iff)


lemma load_v2_juan_eq: "load_data_v2 float_plain (Inr tabla_juan) = Inr juan_v2"
  by (simp add: load_v2_juan juan_v2_def)

section \<open>The breakdown per regional\<close>

lemma sum_over_groups:
  assumes "finite K"
  shows "(\<Sum>k\<in>K. sum_list (map g (filter (\<lambda>r. key r = k) rs))) =
         sum_list (map g (filter (\<lambda>r. key r \<in> K) rs))"
proof (induction rs)
  case Nil
  show ?case by simp
next
  case (Cons r rs)
  have "(\<Sum>k\<in>K. sum_list (map g (filter (\<lambda>r. key r = k) (r # rs)))) =
        (\<Sum>k\<in>K. (if key r = k then g r else 0) + sum_list (map g (filter (\<lambda>r. key r = k) rs)))"
    by (rule sum.cong) simp_all
  also have "\<dots> = (\<Sum>k\<in>K. if key r = k then g r else 0) +
        (\<Sum>k\<in>K. sum_list (map g (filter (\<lambda>r. key r = k) rs)))"
    by (rule sum.distrib)
  also have "(\<Sum>k\<in>K. if key r = k then g r else 0) = (if key r \<in> K then g r else 0)"
    using assms by (simp add: sum.delta')
  finally show ?case using Cons.IH by simp
qed

lemma groups_finite: "finite {k. is_group df key k}"
proof -
  have "{k. is_group df key k} \<subseteq> set (map (\<lambda>r. r key) (rows df))"
    by (auto simp: is_group_def split: if_splits)
  then show ?thesis by (rule finite_subset) simp
qed

lemma in_group_iff:
  "r \<in> set (rows df) \<Longrightarrow> is_group df key (r key) \<longleftrightarrow> r key \<noteq> NaN"
  by (auto simp: is_group_def)

lemma sum_groups_with_key:
  "(\<Sum>k\<in>{k. is_group df key k}. sum_list (map g (group_rows df key k))) =
   sum_list (map g (filter (\<lambda>r. r key \<noteq> NaN) (rows df)))"
proof -
  have "(\<Sum>k\<in>{k. is_group df key k}. sum_list (map g (group_rows df key k))) =
      sum_list (map g (filter (\<lambda>r. r key \<in> {k. is_group df key k}) (rows df)))"
    unfolding group_rows_def by (rule sum_over_groups [OF groups_finite])
  also have "filter (\<lambda>r. r key \<in> {k. is_group df key k}) (rows df) =
      filter (\<lambda>r. r key \<noteq> NaN) (rows df)"
    by (rule filter_cong [OF refl]) (simp add: in_group_iff)
  finally show ?thesis .
qed

lemma resumen_regional_value:
  assumes "REGIONAL \<in> set (columns t)" and "CEDULA \<in> set (columns t)"
    and "ESTADO_AFILIADO \<in> set (columns t)" and "SUMA_CUOTAS_NUM \<in> set (columns t)"
    and "numeric_column SUMA_CUOTAS_NUM t"
  shows "resumen_regional t =
     Inr (\<lambda>k. if is_group t REGIONAL k
            then Some \<lparr>Afiliados = length (filter (\<lambda>r. r CEDULA \<noteq> NaN) (group_rows t REGIONAL k)),
                       Activos = length (filter (\<lambda>r. r ESTADO_AFILIADO = Str ''ACTIVO'')
                                           (group_rows t REGIONAL k)),
                       Recaudo_Total = sum_cuotas (group_rows t REGIONAL k)\<rparr>
            else None)"
  using assms unfolding sum_cuotas_def
  by (simp add: resumen_regional_def getitem_def numeric_column_def list_ex_iff)

lemma recaudo_reg_value:
  assumes "REGIONAL \<in> set (columns t)" and "SUMA_CUOTAS_NUM \<in> set (columns t)"
    and "numeric_column SUMA_CUOTAS_NUM t"
  shows "recaudo_reg t =
     Inr (\<lambda>k. if is_group t REGIONAL k then Some (sum_cuotas (group_rows t REGIONAL k)) else None)"
  using assms unfolding sum_cuotas_def
  by (simp add: recaudo_reg_def getitem_def numeric_column_def list_ex_iff)

lemma dom_groups:
  "dom (\<lambda>k. if is_group t key k then Some (f k) else None) = {k. is_group t key k}"
  by (auto simp: dom_def)

lemma resumen_regional_total:
  assumes "REGIONAL \<in> set (columns t)" and "CEDULA \<in> set (columns t)"
    and "ESTADO_AFILIADO \<in> set (columns t)" and "SUMA_CUOTAS_NUM \<in> set (columns t)"
    and "numeric_column SUMA_CUOTAS_NUM t"
  shows "\<exists>tbl. resumen_regional t = Inr tbl
     \<and> (\<Sum>k\<in>dom tbl. Recaudo_Total (the (tbl k))) = sum_cuotas (with_regional t)"
proof (intro exI conjI)
  show "resumen_regional t = Inr (\<lambda>k. if is_group t REGIONAL k
            then Some \<lparr>Afiliados = length (filter (\<lambda>r. r CEDULA \<noteq> NaN) (group_rows t REGIONAL k)),
                       Activos = length (filter (\<lambda>r. r ESTADO_AFILIADO = Str ''ACTIVO'')
                                           (group_rows t REGIONAL k)),
                       Recaudo_Total = sum_cuotas (group_rows t REGIONAL k)\<rparr>
            else None)" (is "_ = Inr ?tbl")
    using assms by (rule resumen_regional_value)
  have "(\<Sum>k\<in>dom ?tbl. Recaudo_Total (the (?tbl k))) =
      (\<Sum>k\<in>{k. is_group t REGIONAL k}. sum_cuotas (group_rows t REGIONAL k))"
    unfolding dom_groups by (rule sum.cong) simp_all
  also have "\<dots> = sum_cuotas (with_regional t)"
    unfolding sum_cuotas_def with_regional_def by (rule sum_groups_with_key)
  finally show "(\<Sum>k\<in>dom ?tbl. Recaudo_Total (the (?tbl k))) = sum_cuotas (with_regional t)" .
qed

lemma recaudo_reg_total:
  assumes "REGIONAL \<in> set (columns t)" and "SUMA_CUOTAS_NUM \<in> set (columns t)"
    and "numeric_column SUMA_CUOTAS_NUM t"
  shows "\<exists>m. recaudo_reg t = Inr m \<and> (\<Sum>k\<in>dom m. the (m k)) = sum_cuotas (with_regional t)"
proof (intro exI conjI)
  show "recaudo_reg t =
     Inr (\<lambda>k. if is_group t REGIONAL k then Some (sum_cuotas (group_rows t REGIONAL k)) else None)"
    (is "_ = Inr ?m")
    using assms by (rule recaudo_reg_value)
  have "(\<Sum>k\<in>dom ?m. the (?m k)) =
      (\<Sum>k\<in>{k. is_group t REGIONAL k}. sum_cuotas (group_rows t REGIONAL k))"
    unfolding dom_groups by (rule sum.cong) simp_all
  also have "\<dots> = sum_cuotas (with_regional t)"
    unfolding sum_cuotas_def with_regional_def by (rule sum_groups_with_key)
  finally show "(\<Sum>k\<in>dom ?m. the (?m k)) = sum_cuotas (with_regional t)" .
qed

lemma clean_currency_not_Str: "\<not> is_Str (clean_currency float_of c)"
proof (cases c)
  case (Str s)
  show ?thesis
  proof (cases "float_of (strip_currency s)")
    case None
    with Str show ?thesis by (simp add: replace_dollar_then_comma)
  next
    case (Some f)
    with Str show ?thesis by (cases f) (simp_all add: replace_dollar_then_comma)
  qed
qed simp_all

lemma clean_cuotas_v2_numeric:
  "\<not> list_ex is_Str (map (\<lambda>r. r SUMA_CUOTAS_NUM) (rows (clean_cuotas_v2 float_of df)))"
proof (cases "SUMA_CUOTAS \<in> set (columns df)")
  case True
  let ?xs = "map (clean_currency float_of) (map (\<lambda>r. r SUMA_CUOTAS) (rows df))"
  have "length ?xs = length (rows df)" by simp
  from column_setitem [OF this, of SUMA_CUOTAS_NUM SUMA_CUOTAS_NUM] True
  have "map (\<lambda>r. r SUMA_CUOTAS_NUM) (rows (clean_cuotas_v2 float_of df)) = ?xs"
    by (simp add: clean_cuotas_v2_def)
  then show ?thesis by (simp add: list_ex_iff clean_currency_not_Str)
next
  case False
  then have "map (\<lambda>r. r SUMA_CUOTAS_NUM) (rows (clean_cuotas_v2 float_of df)) =
      map (\<lambda>r. Num 0) (rows df)"
    by (simp add: clean_cuotas_v2_def column_setitem_scalar)
  then show ?thesis by (simp add: list_ex_iff)
qed

lemma column_list_ex:
  "list_ex (\<lambda>r. p (r c)) rs = list_ex p (map (\<lambda>r. r c) rs)"
  by (simp add: list_ex_iff)

lemma load_data_v2_numeric:
  assumes "load_data_v2 float_of (Inr df) = Inr t"
  shows "numeric_column SUMA_CUOTAS_NUM t"
  using load_data_v2_column [OF assms, of SUMA_CUOTAS_NUM] clean_cuotas_v2_numeric [of float_of df]
  by (simp add: numeric_column_def column_list_ex)

lemma load_data_v2_regional:
  assumes "load_data_v2 float_of (Inr df) = Inr t"
  shows "list_all (\<lambda>r. r REGIONAL \<noteq> NaN) (rows t)"
proof -
  have "list_all (\<lambda>c. c \<noteq> NaN)
      (map (\<lambda>r. if r REGIONAL = NaN then Str ''SIN ASIGNAR'' else r REGIONAL) (rows df))"
    by (auto simp: list_all_iff)
  with load_data_v2_column [OF assms, of REGIONAL]
  have "list_all (\<lambda>c. c \<noteq> NaN) (map (\<lambda>r. r REGIONAL) (rows t))" by simp
  then show ?thesis by (simp add: list_all_iff)
qed

lemma with_regional_all:
  "list_all (\<lambda>r. r REGIONAL \<noteq> NaN) (rows t) \<Longrightarrow> with_regional t = rows t"
  by (simp add: with_regional_def list_all_iff)

lemma sin_regional_v1_frame:
  "columns sin_regional_v1 = csv_columns @ [SUMA_CUOTAS_NUM]"
  "rows sin_regional_v1 =
     [(fila (Num 123) (Str ''Juan Perez'') (Str ''SUR'') (Str ''ACTIVO'') (Str ''$1,000.00''))
        (SUMA_CUOTAS_NUM := Num 1000),
      (fila (Num 456) (Str ''Ana Ruiz'') NaN (Str ''ACTIVO'') (Str ''$500.00''))
        (SUMA_CUOTAS_NUM := Num 500)]"
  by (simp_all add: sin_regional_v1_def setitem_def tabla_sin_regional_def tablas_eval fun_eq_iff)

lemma load_v1_sin_regional:
  "load_data_v1 float_plain upper_plain (Inr tabla_sin_regional) = (sin_regional_v1, [])"
proof -
  have b: "float_plain (strip_currency ''$1,000.00'') = Some (Some 1000)"
    "float_plain (strip_currency ''$500.00'') = Some (Some 500)"
    by (simp_all add: float_plain_eval)
  have 1: "clean_cuotas_v1 float_plain tabla_sin_regional =
      Inr (setitem tabla_sin_regional SUMA_CUOTAS_NUM [Num 1000, Num 500])"
    using b by (simp add: clean_cuotas_v1_def tabla_sin_regional_def tablas_eval strip_currency_def)
  have 2: "normalize_estado_v1 upper_plain (setitem tabla_sin_regional SUMA_CUOTAS_NUM [Num 1000, Num 500]) =
      Inr sin_regional_v1"
    by (simp add: normalize_estado_v1_def setitem_def tabla_sin_regional_def tablas_eval fillna_def
        str_accessor_def str_upper_def upper_def ascii_def upper_char_def sin_regional_v1_def)
  show ?thesis by (simp add: load_data_v1_def 1 2)
qed

text \<open>
  C6, as amended. With dues as exact numbers: the per-regional sums of the report of
  variant 1 and of the chart of variant 2 add up to the sum of the dues of the records
  that have a regional; records whose regional is missing belong to no group. Where no
  regional is missing this is the global total collected, and that is so for every
  table that variant 2 loads, since its \<^verbatim>\<open>load_data\<close> fills the missing regionals with
  \<^verbatim>\<open>SIN ASIGNAR\<close>.
\<close>

theorem regional_sums_total:
  "(REGIONAL \<in> set (columns t) \<and> CEDULA \<in> set (columns t)
      \<and> ESTADO_AFILIADO \<in> set (columns t) \<and> SUMA_CUOTAS_NUM \<in> set (columns t)
      \<and> numeric_column SUMA_CUOTAS_NUM t \<longrightarrow>
    (\<exists>tbl. resumen_regional t = Inr tbl
       \<and> (\<Sum>k\<in>dom tbl. Recaudo_Total (the (tbl k))) = sum_cuotas (with_regional t)))
   \<and> (REGIONAL \<in> set (columns t2) \<and> SUMA_CUOTAS_NUM \<in> set (columns t2)
      \<and> numeric_column SUMA_CUOTAS_NUM t2 \<longrightarrow>
    (\<exists>m. recaudo_reg t2 = Inr m
       \<and> (\<Sum>k\<in>dom m. the (m k)) = sum_cuotas (with_regional t2)))
   \<and> (list_all (\<lambda>r. r REGIONAL \<noteq> NaN) (rows t3) \<longrightarrow> with_regional t3 = rows t3)
   \<and> (load_data_v2 float_of (Inr df) = Inr t4 \<longrightarrow>
    (\<exists>m. recaudo_reg t4 = Inr m \<and> (\<Sum>k\<in>dom m. the (m k)) = sum_cuotas (rows t4))
    \<and> series_sum (map (\<lambda>r. r SUMA_CUOTAS_NUM) (rows t4)) = Inr (sum_cuotas (rows t4)))"
proof (intro conjI impI)
  assume "REGIONAL \<in> set (columns t) \<and> CEDULA \<in> set (columns t)
      \<and> ESTADO_AFILIADO \<in> set (columns t) \<and> SUMA_CUOTAS_NUM \<in> set (columns t)
      \<and> numeric_column SUMA_CUOTAS_NUM t"
  then show "\<exists>tbl. resumen_regional t = Inr tbl
       \<and> (\<Sum>k\<in>dom tbl. Recaudo_Total (the (tbl k))) = sum_cuotas (with_regional t)"
    using resumen_regional_total [of t] by simp
next
  assume "REGIONAL \<in> set (columns t2) \<and> SUMA_CUOTAS_NUM \<in> set (columns t2)
      \<and> numeric_column SUMA_CUOTAS_NUM t2"
  then show "\<exists>m. recaudo_reg t2 = Inr m
       \<and> (\<Sum>k\<in>dom m. the (m k)) = sum_cuotas (with_regional t2)"
    using recaudo_reg_total [of t2] by simp
next
  assume "list_all (\<lambda>r. r REGIONAL \<noteq> NaN) (rows t3)"
  then show "with_regional t3 = rows t3" by (rule with_regional_all)
next
  assume l: "load_data_v2 float_of (Inr df) = Inr t4"
  have cols: "REGIONAL \<in> set (columns t4)" "SUMA_CUOTAS_NUM \<in> set (columns t4)"
    using load_data_v2_columns [OF l] load_data_v2_steps(3) [OF l] by simp_all
  note num = load_data_v2_numeric [OF l]
  have all: "with_regional t4 = rows t4"
    using load_data_v2_regional [OF l] by (rule with_regional_all)
  from recaudo_reg_total [OF cols num] all
  show "\<exists>m. recaudo_reg t4 = Inr m \<and> (\<Sum>k\<in>dom m. the (m k)) = sum_cuotas (rows t4)"
    by simp
  from series_sum_numeric [OF num]
  show "series_sum (map (\<lambda>r. r SUMA_CUOTAS_NUM) (rows t4)) = Inr (sum_cuotas (rows t4))"
    by (simp add: sum_cuotas_def)
qed

theorem regional_sums_total_witness:
  "REGIONAL \<in> set (columns sin_regional_v1) \<and> CEDULA \<in> set (columns sin_regional_v1)
   \<and> ESTADO_AFILIADO \<in> set (columns sin_regional_v1)
   \<and> SUMA_CUOTAS_NUM \<in> set (columns sin_regional_v1)
   \<and> numeric_column SUMA_CUOTAS_NUM sin_regional_v1
   \<and> (\<exists>tbl. resumen_regional sin_regional_v1 = Inr tbl
         \<and> (\<Sum>k\<in>dom tbl. Recaudo_Total (the (tbl k))) = 1000)
   \<and> REGIONAL \<in> set (columns juan_v2) \<and> SUMA_CUOTAS_NUM \<in> set (columns juan_v2)
   \<and> numeric_column SUMA_CUOTAS_NUM juan_v2
   \<and> (\<exists>m. recaudo_reg juan_v2 = Inr m \<and> (\<Sum>k\<in>dom m. the (m k)) = 1000)
   \<and> list_all (\<lambda>r. r REGIONAL \<noteq> NaN) (rows juan_v2)
   \<and> with_regional juan_v2 = rows juan_v2
   \<and> load_data_v2 float_plain (Inr tabla_juan) = Inr juan_v2
   \<and> series_sum (map (\<lambda>r. r SUMA_CUOTAS_NUM) (rows juan_v2)) = Inr 1000"
proof -
  note T = regional_sums_total
    [where t = sin_regional_v1 and ?t2.0 = juan_v2 and ?t3.0 = juan_v2
       and float_of = float_plain and df = tabla_juan and ?t4.0 = juan_v2]
  have h1: "REGIONAL \<in> set (columns sin_regional_v1) \<and> CEDULA \<in> set (columns sin_regional_v1)
      \<and> ESTADO_AFILIADO \<in> set (columns sin_regional_v1)
      \<and> SUMA_CUOTAS_NUM \<in> set (columns sin_regional_v1)
      \<and> numeric_column SUMA_CUOTAS_NUM sin_regional_v1"
    by (simp add: sin_regional_v1_frame tablas_eval numeric_column_def)
  have v1: "sum_cuotas (with_regional sin_regional_v1) = 1000"
    by (simp add: with_regional_def sin_regional_v1_frame tablas_eval sum_cuotas_def)
  have h2: "REGIONAL \<in> set (columns juan_v2) \<and> SUMA_CUOTAS_NUM \<in> set (columns juan_v2)
      \<and> numeric_column SUMA_CUOTAS_NUM juan_v2"
    by (simp add: juan_v2_frame tablas_eval numeric_column_def)
  have h3: "list_all (\<lambda>r. r REGIONAL \<noteq> NaN) (rows juan_v2)"
    by (simp add: juan_v2_frame tablas_eval)
  have v2: "sum_cuotas (with_regional juan_v2) = 1000" "sum_cuotas (rows juan_v2) = 1000"
    by (simp_all add: with_regional_def juan_v2_frame tablas_eval sum_cuotas_def)
  from T h1 h2 h3 load_v2_juan_eq show ?thesis
    by (simp add: v1 v2)
qed

text \<open>
  The claim as stated fails in variant 1, which does not fill the regional: of the
  two records of the file, with dues 1000 and 500, the one without regional is in no
  group, and the sums per regional add up to 1000 while the total collected is 1500.
\<close>

theorem regional_sums_v1_counterexample:
  "load_data_v1 float_plain upper_plain (Inr tabla_sin_regional) = (sin_regional_v1, [])
   \<and> (\<exists>tbl. resumen_regional sin_regional_v1 = Inr tbl
         \<and> (\<Sum>k\<in>dom tbl. Recaudo_Total (the (tbl k))) = 1000)
   \<and> kpis_v1 sin_regional_v1 =
       Inr \<lparr>total_afiliados = 2, activos = 2, retirados = 0, total_recaudo = 1500\<rparr>"
proof -
  have h: "REGIONAL \<in> set (columns sin_regional_v1)" "CEDULA \<in> set (columns sin_regional_v1)"
    "ESTADO_AFILIADO \<in> set (columns sin_regional_v1)"
    "SUMA_CUOTAS_NUM \<in> set (columns sin_regional_v1)"
    "numeric_column SUMA_CUOTAS_NUM sin_regional_v1"
    by (simp_all add: sin_regional_v1_frame tablas_eval numeric_column_def)
  have v: "sum_cuotas (with_regional sin_regional_v1) = 1000"
    by (simp add: with_regional_def sin_regional_v1_frame tablas_eval sum_cuotas_def)
  have k: "length (rows sin_regional_v1) = 2"
    "count_records (\<lambda>r. r ESTADO_AFILIADO = Str ''ACTIVO'') sin_regional_v1 = 2"
    "count_records (\<lambda>r. r ESTADO_AFILIADO = Str ''RETIRADO'') sin_regional_v1 = 0"
    "sum_cuotas (rows sin_regional_v1) = 1500"
    by (simp_all add: sin_regional_v1_frame tablas_eval count_records_def sum_cuotas_def)
  from resumen_regional_total [OF h] kpis_v1_value [of sin_regional_v1] h load_v1_sin_regional
  show ?thesis by (simp add: v k)
qed

section \<open>The form for a new affiliate\<close>

lemma new_row_frame:
  "columns (new_row fmt_money form) =
     [CEDULA, NOMBRES, REGIONAL, ESTADO_AFILIADO, SUMA_CUOTAS_NUM, SUMA_CUOTAS]"
  "map (\<lambda>r. r c) (rows (new_row fmt_money form)) =
     [if c = SUMA_CUOTAS then Str (fmt_money (cuota form))
      else if c = SUMA_CUOTAS_NUM then Num (cuota form)
      else if c = ESTADO_AFILIADO then Str (estado form)
      else if c = REGIONAL then Str (reg form)
      else if c = NOMBRES then Str (nombre form)
      else if c = CEDULA then Str (cedula form)
      else NaN]"
  by (simp_all add: new_row_def)

lemma reindex_in: "c \<in> set cols \<Longrightarrow> reindex cols r c = r c"
  by (simp add: reindex_def)

lemma concat_df_column:
  assumes "c \<in> set (columns a)" and "c \<in> set (columns b)"
  shows "map (\<lambda>r. r c) (rows (concat_df a b)) = map (\<lambda>r. r c) (rows a) @ map (\<lambda>r. r c) (rows b)"
  using assms by (simp add: concat_df_def comp_def reindex_in)

lemma concat_df_columns:
  "set (columns (concat_df a b)) = set (columns a) \<union> set (columns b)"
  by (auto simp: concat_df_def)

lemma guardar_column:
  assumes "c \<in> set (columns (df_afiliados st))"
    and "c \<in> set [CEDULA, NOMBRES, REGIONAL, ESTADO_AFILIADO, SUMA_CUOTAS_NUM, SUMA_CUOTAS]"
  shows "map (\<lambda>r. r c) (rows (df_afiliados (fst (guardar_afiliado fmt_money st form)))) =
     map (\<lambda>r. r c) (rows (df_afiliados st)) @ map (\<lambda>r. r c) (rows (new_row fmt_money form))"
proof -
  have "c \<in> set (columns (new_row fmt_money form))"
    using assms(2) by (simp only: new_row_frame(1))
  from concat_df_column [OF assms(1) this] show ?thesis
    by (simp add: guardar_afiliado_def)
qed

lemma value_counts_append:
  assumes "k0 \<noteq> NaN"
  shows "value_counts (xs @ [k0]) k0 = Some (Suc (count_of (value_counts xs) k0))"
    and "k \<noteq> k0 \<Longrightarrow> value_counts (xs @ [k0]) k = value_counts xs k"
proof -
  have c: "count_list xs k0 = 0" if "k0 \<notin> set xs"
    using that by (simp add: count_list_0_iff)
  show "value_counts (xs @ [k0]) k0 = Some (Suc (count_of (value_counts xs) k0))"
    using assms c by (simp add: value_counts_def count_of_def)
  show "value_counts (xs @ [k0]) k = value_counts xs k" if "k \<noteq> k0"
    using that by (simp add: value_counts_def)
qed

lemma guardar_rows:
  "rows (df_afiliados (fst (guardar_afiliado fmt_money st form))) =
     map (reindex (columns (df_afiliados st))) (rows (df_afiliados st)) @
     map (reindex (columns (new_row fmt_money form))) (rows (new_row fmt_money form))"
  by (simp add: guardar_afiliado_def concat_df_def)

lemma sum_cuotas_append: "sum_cuotas (xs @ ys) = sum_cuotas xs + sum_cuotas ys"
  by (simp add: sum_cuotas_def)

lemma group_reindex:
  assumes "REGIONAL \<in> set cols" and "SUMA_CUOTAS_NUM \<in> set cols"
  shows "sum_cuotas (filter (\<lambda>r. r REGIONAL = k) (map (reindex cols) rs)) =
         sum_cuotas (filter (\<lambda>r. r REGIONAL = k) rs)"
  using assms by (induction rs) (simp_all add: sum_cuotas_def reindex_in)

lemma group_new_row:
  "sum_cuotas (filter (\<lambda>r. r REGIONAL = k)
       (map (reindex (columns (new_row fmt_money form))) (rows (new_row fmt_money form)))) =
     (if k = Str (reg form) then cuota form else 0)"
  by (auto simp: new_row_def reindex_def sum_cuotas_def)

lemma guardar_group_sum:
  assumes "REGIONAL \<in> set (columns (df_afiliados st))"
    and "SUMA_CUOTAS_NUM \<in> set (columns (df_afiliados st))"
  shows "sum_cuotas (group_rows (df_afiliados (fst (guardar_afiliado fmt_money st form))) REGIONAL k) =
     sum_cuotas (group_rows (df_afiliados st) REGIONAL k) +
       (if k = Str (reg form) then cuota form else 0)"
  unfolding group_rows_def guardar_rows filter_append sum_cuotas_append
    group_reindex [OF assms] group_new_row ..

lemma guardar_is_group:
  assumes "REGIONAL \<in> set (columns (df_afiliados st))"
  shows "is_group (df_afiliados (fst (guardar_afiliado fmt_money st form))) REGIONAL k \<longleftrightarrow>
     is_group (df_afiliados st) REGIONAL k \<or> k = Str (reg form)"
proof -
  have "REGIONAL \<in> set [CEDULA, NOMBRES, REGIONAL, ESTADO_AFILIADO, SUMA_CUOTAS_NUM, SUMA_CUOTAS]"
    by simp
  from guardar_column [OF assms this, of fmt_money form] show ?thesis
    by (auto simp: is_group_def new_row_frame(2))
qed

lemma guardar_numeric:
  assumes "SUMA_CUOTAS_NUM \<in> set (columns (df_afiliados st))"
    and "numeric_column SUMA_CUOTAS_NUM (df_afiliados st)"
  shows "numeric_column SUMA_CUOTAS_NUM (df_afiliados (fst (guardar_afiliado fmt_money st form)))"
proof -
  have "SUMA_CUOTAS_NUM \<in> set [CEDULA, NOMBRES, REGIONAL, ESTADO_AFILIADO, SUMA_CUOTAS_NUM, SUMA_CUOTAS]"
    by simp
  from guardar_column [OF assms(1) this, of fmt_money form] assms(2) show ?thesis
    by (simp add: numeric_column_def column_list_ex new_row_frame(2))
qed

lemma guardar_columns:
  "set (columns (df_afiliados (fst (guardar_afiliado fmt_money st form)))) =
     set (columns (df_afiliados st)) \<union>
     set [CEDULA, NOMBRES, REGIONAL, ESTADO_AFILIADO, SUMA_CUOTAS_NUM, SUMA_CUOTAS]"
  by (simp only: guardar_afiliado_def fst_conv concat_df_columns new_row_frame(1))
     (simp add: concat_df_columns new_row_frame(1))

lemma no_group_no_rows:
  "\<not> is_group df key k \<Longrightarrow> k \<noteq> NaN \<Longrightarrow> group_rows df key k = []"
  by (auto simp: is_group_def group_rows_def filter_empty_conv)

lemma guardar_counts:
  assumes "REGIONAL \<in> set (columns (df_afiliados st))"
  shows "\<exists>m m'. regional_counts (df_afiliados st) = Inr m
     \<and> regional_counts (df_afiliados (fst (guardar_afiliado fmt_money st form))) = Inr m'
     \<and> m' (Str (reg form)) = Some (Suc (count_of m (Str (reg form))))
     \<and> (k \<noteq> Str (reg form) \<longrightarrow> m' k = m k)"
proof -
  let ?df = "df_afiliados st"
  let ?df' = "df_afiliados (fst (guardar_afiliado fmt_money st form))"
  let ?xs = "map (\<lambda>r. r REGIONAL) (rows ?df)"
  have "REGIONAL \<in> set [CEDULA, NOMBRES, REGIONAL, ESTADO_AFILIADO, SUMA_CUOTAS_NUM, SUMA_CUOTAS]"
    by simp
  from guardar_column [OF assms this, of fmt_money form]
  have col: "map (\<lambda>r. r REGIONAL) (rows ?df') = ?xs @ [Str (reg form)]"
    by (simp add: new_row_frame(2))
  have mem: "REGIONAL \<in> set (columns ?df')"
    by (simp add: guardar_columns)
  have 1: "regional_counts ?df = Inr (value_counts ?xs)"
    using assms by (simp add: regional_counts_def getitem_def)
  have 2: "regional_counts ?df' = Inr (value_counts (?xs @ [Str (reg form)]))"
    using mem col by (simp add: regional_counts_def getitem_def)
  have 3: "value_counts (?xs @ [Str (reg form)]) (Str (reg form)) =
      Some (Suc (count_of (value_counts ?xs) (Str (reg form))))"
    by (rule value_counts_append(1)) simp
  have 4: "k \<noteq> Str (reg form) \<longrightarrow> value_counts (?xs @ [Str (reg form)]) k = value_counts ?xs k"
    using value_counts_append(2) [where k = k and ?k0.0 = "Str (reg form)" and xs = ?xs] by simp
  from 1 2 3 4 show ?thesis by blast
qed

lemma guardar_sums:
  assumes "REGIONAL \<in> set (columns (df_afiliados st))"
    and "SUMA_CUOTAS_NUM \<in> set (columns (df_afiliados st))"
    and "numeric_column SUMA_CUOTAS_NUM (df_afiliados st)"
  shows "\<exists>s s'. recaudo_reg (df_afiliados st) = Inr s
     \<and> recaudo_reg (df_afiliados (fst (guardar_afiliado fmt_money st form))) = Inr s'
     \<and> s' (Str (reg form)) = Some (sum_of s (Str (reg form)) + cuota form)
     \<and> (k \<noteq> Str (reg form) \<longrightarrow> s' k = s k)"
proof -
  let ?df = "df_afiliados st"
  let ?df' = "df_afiliados (fst (guardar_afiliado fmt_money st form))"
  let ?s = "\<lambda>k. if is_group ?df REGIONAL k then Some (sum_cuotas (group_rows ?df REGIONAL k)) else None"
  let ?s' = "\<lambda>k. if is_group ?df' REGIONAL k then Some (sum_cuotas (group_rows ?df' REGIONAL k)) else None"
  have 1: "recaudo_reg ?df = Inr ?s"
    using assms by (rule recaudo_reg_value)
  have cols: "REGIONAL \<in> set (columns ?df')" "SUMA_CUOTAS_NUM \<in> set (columns ?df')"
    by (simp_all add: guardar_columns)
  have 2: "recaudo_reg ?df' = Inr ?s'"
    using cols guardar_numeric [OF assms(2,3)] by (rule recaudo_reg_value)
  have old: "sum_of ?s (Str (reg form)) = sum_cuotas (group_rows ?df REGIONAL (Str (reg form)))"
  proof (cases "is_group ?df REGIONAL (Str (reg form))")
    case True
    then show ?thesis by (simp add: sum_of_def)
  next
    case False
    then have "group_rows ?df REGIONAL (Str (reg form)) = []"
      by (rule no_group_no_rows) simp
    with False show ?thesis by (simp add: sum_of_def sum_cuotas_def)
  qed
  have 3: "?s' (Str (reg form)) = Some (sum_of ?s (Str (reg form)) + cuota form)"
    unfolding old
    by (simp add: guardar_is_group [OF assms(1)] guardar_group_sum [OF assms(1,2)])
  have 4: "k \<noteq> Str (reg form) \<longrightarrow> ?s' k = ?s k"
    by (simp add: guardar_is_group [OF assms(1)] guardar_group_sum [OF assms(1,2)])
  from 1 2 3 4 show ?thesis by blast
qed

lemma guardar_last:
  "map (\<lambda>r. r c) [last (rows (df_afiliados (fst (guardar_afiliado fmt_money st form))))] =
     map (\<lambda>r. r c) (rows (new_row fmt_money form))"
  by (simp add: guardar_rows new_row_def reindex_def)

lemma guardar_butlast:
  "c \<in> set (columns (df_afiliados st)) \<Longrightarrow>
   map (\<lambda>r. r c) (butlast (rows (df_afiliados (fst (guardar_afiliado fmt_money st form))))) =
     map (\<lambda>r. r c) (rows (df_afiliados st))"
  by (simp add: guardar_rows new_row_def butlast_append comp_def reindex_in)

text \<open>
  C2, as amended. In variant 2 a submission of the form appends exactly one record
  with the submitted cedula, name, regional, status and dues to the table of the
  session, leaves the records already there unchanged and signals success; after
  it, the count of the chosen regional in the chart of affiliates per regional is one
  higher and its dues sum in the chart of dues per regional is higher by the
  submitted dues, and the entries of every other regional are unchanged. In variant 1
  the submission only signals success (the registration is simulated): the table is
  returned as it was.
\<close>

theorem new_affiliate_form:
  fixes st :: session_state and form :: nuevo_afiliado and fmt_money :: "real \<Rightarrow> string"
  defines "df \<equiv> df_afiliados st"
  defines "df' \<equiv> df_afiliados (fst (guardar_afiliado fmt_money st form))"
  shows "length (rows df') = Suc (length (rows df))
   \<and> snd (guardar_afiliado fmt_money st form) = [St_success]
   \<and> last (rows df') CEDULA = Str (cedula form)
   \<and> last (rows df') NOMBRES = Str (nombre form)
   \<and> last (rows df') REGIONAL = Str (reg form)
   \<and> last (rows df') ESTADO_AFILIADO = Str (estado form)
   \<and> last (rows df') SUMA_CUOTAS_NUM = Num (cuota form)
   \<and> (c \<in> set (columns df) \<longrightarrow>
        map (\<lambda>r. r c) (butlast (rows df')) = map (\<lambda>r. r c) (rows df))
   \<and> (REGIONAL \<in> set (columns df) \<longrightarrow>
        (\<exists>m m'. regional_counts df = Inr m \<and> regional_counts df' = Inr m'
           \<and> m' (Str (reg form)) = Some (Suc (count_of m (Str (reg form))))
           \<and> (k \<noteq> Str (reg form) \<longrightarrow> m' k = m k)))
   \<and> (REGIONAL \<in> set (columns df) \<and> SUMA_CUOTAS_NUM \<in> set (columns df)
        \<and> numeric_column SUMA_CUOTAS_NUM df \<longrightarrow>
        (\<exists>s s'. recaudo_reg df = Inr s \<and> recaudo_reg df' = Inr s'
           \<and> s' (Str (reg form)) = Some (sum_of s (Str (reg form)) + cuota form)
           \<and> (k \<noteq> Str (reg form) \<longrightarrow> s' k = s k)))
   \<and> new_member_v1 df1 form1 = (df1, [St_success])"
proof -
  have f: "last (rows df') c' =
      (if c' = SUMA_CUOTAS then Str (fmt_money (cuota form))
       else if c' = SUMA_CUOTAS_NUM then Num (cuota form)
       else if c' = ESTADO_AFILIADO then Str (estado form)
       else if c' = REGIONAL then Str (reg form)
       else if c' = NOMBRES then Str (nombre form)
       else if c' = CEDULA then Str (cedula form)
       else NaN)" for c'
    using guardar_last [of c' fmt_money st form]
    unfolding df'_def new_row_frame(2) by simp
  have 1: "length (rows df') = Suc (length (rows df))"
    by (simp add: df'_def df_def guardar_rows new_row_def)
  have 2: "snd (guardar_afiliado fmt_money st form) = [St_success]"
    by (simp add: guardar_afiliado_def)
  have 3: "c \<in> set (columns df) \<longrightarrow>
        map (\<lambda>r. r c) (butlast (rows df')) = map (\<lambda>r. r c) (rows df)"
    unfolding df_def df'_def by (simp add: guardar_butlast)
  have 4: "REGIONAL \<in> set (columns df) \<longrightarrow>
        (\<exists>m m'. regional_counts df = Inr m \<and> regional_counts df' = Inr m'
           \<and> m' (Str (reg form)) = Some (Suc (count_of m (Str (reg form))))
           \<and> (k \<noteq> Str (reg form) \<longrightarrow> m' k = m k))"
    unfolding df_def df'_def using guardar_counts [of st fmt_money form k] by blast
  have 5: "REGIONAL \<in> set (columns df) \<and> SUMA_CUOTAS_NUM \<in> set (columns df)
        \<and> numeric_column SUMA_CUOTAS_NUM df \<longrightarrow>
        (\<exists>s s'. recaudo_reg df = Inr s \<and> recaudo_reg df' = Inr s'
           \<and> s' (Str (reg form)) = Some (sum_of s (Str (reg form)) + cuota form)
           \<and> (k \<noteq> Str (reg form) \<longrightarrow> s' k = s k))"
    unfolding df_def df'_def using guardar_sums [of st fmt_money form k] by blast
  have 6: "new_member_v1 df1 form1 = (df1, [St_success])"
    by (simp add: new_member_v1_def)
  from 1 2 3 4 5 6 show ?thesis
    by (simp only: f) simp
qed

theorem new_affiliate_form_witness:
  "length (rows juan_luis_v2) = 2
   \<and> last (rows juan_luis_v2) REGIONAL = Str ''SUR''
   \<and> last (rows juan_luis_v2) SUMA_CUOTAS_NUM = Num 500
   \<and> CEDULA \<in> set (columns juan_v2)
   \<and> map (\<lambda>r. r CEDULA) (butlast (rows juan_luis_v2)) = [Num 123]
   \<and> REGIONAL \<in> set (columns juan_v2)
   \<and> (\<exists>m m'. regional_counts juan_v2 = Inr m \<and> regional_counts juan_luis_v2 = Inr m'
         \<and> m (Str ''SUR'') = Some 1 \<and> m' (Str ''SUR'') = Some 2
         \<and> m' (Str ''ORIENTE'') = m (Str ''ORIENTE''))
   \<and> SUMA_CUOTAS_NUM \<in> set (columns juan_v2) \<and> numeric_column SUMA_CUOTAS_NUM juan_v2
   \<and> (\<exists>s s'. recaudo_reg juan_v2 = Inr s \<and> recaudo_reg juan_luis_v2 = Inr s'
         \<and> s (Str ''SUR'') = Some 1000 \<and> s' (Str ''SUR'') = Some 1500
         \<and> s' (Str ''ORIENTE'') = s (Str ''ORIENTE''))
   \<and> new_member_v1 juan_v1 member_ejemplo = (juan_v1, [St_success])"
proof -
  note T = new_affiliate_form
    [where st = "\<lparr>df_afiliados = juan_v2\<rparr>" and form = form_ejemplo and fmt_money = fmt_ejemplo
       and c = CEDULA and k = "Str ''ORIENTE''" and ?df1.0 = juan_v1 and ?form1.0 = member_ejemplo,
     folded juan_luis_v2_def, simplified]
  have h: "CEDULA \<in> set (columns juan_v2)" "REGIONAL \<in> set (columns juan_v2)"
    "SUMA_CUOTAS_NUM \<in> set (columns juan_v2)" "numeric_column SUMA_CUOTAS_NUM juan_v2"
    by (simp_all add: juan_v2_frame tablas_eval numeric_column_def)
  have v: "length (rows juan_v2) = 1" "map (\<lambda>r. r CEDULA) (rows juan_v2) = [Num 123]"
    by (simp_all add: juan_v2_frame tablas_eval)
  have f: "reg form_ejemplo = ''SUR''" "cuota form_ejemplo = 500"
    by (simp_all add: form_ejemplo_def)
  have rc: "regional_counts juan_v2 = Inr (value_counts [Str ''SUR''])"
    by (simp add: regional_counts_def getitem_def juan_v2_frame tablas_eval)
  have rr: "recaudo_reg juan_v2 =
      Inr (\<lambda>k. if is_group juan_v2 REGIONAL k
                then Some (sum_cuotas (group_rows juan_v2 REGIONAL k)) else None)"
    using h by (intro recaudo_reg_value)
  have g: "is_group juan_v2 REGIONAL (Str ''SUR'')"
    "sum_cuotas (group_rows juan_v2 REGIONAL (Str ''SUR'')) = 1000"
    by (simp_all add: is_group_def group_rows_def sum_cuotas_def juan_v2_frame tablas_eval)
  from T h obtain m m' where m: "regional_counts juan_v2 = Inr m"
    "regional_counts juan_luis_v2 = Inr m'"
    "m' (Str ''SUR'') = Some (Suc (count_of m (Str ''SUR'')))"
    "m' (Str ''ORIENTE'') = m (Str ''ORIENTE'')"
    by (auto simp: f)
  from m(1) rc have "m = value_counts [Str ''SUR'']" by simp
  then have m1: "m (Str ''SUR'') = Some 1"
    by (simp add: value_counts_def)
  then have "count_of m (Str ''SUR'') = 1" by (simp add: count_of_def)
  with m(3) have m2: "m' (Str ''SUR'') = Some 2" by simp
  from T h obtain s s' where s: "recaudo_reg juan_v2 = Inr s"
    "recaudo_reg juan_luis_v2 = Inr s'"
    "s' (Str ''SUR'') = Some (sum_of s (Str ''SUR'') + 500)"
    "s' (Str ''ORIENTE'') = s (Str ''ORIENTE'')"
    by (auto simp: f)
  from s(1) rr g have s1: "s (Str ''SUR'') = Some 1000" by auto
  then have "sum_of s (Str ''SUR'') = 1000" by (simp add: sum_of_def)
  with s(3) have s2: "s' (Str ''SUR'') = Some 1500" by simp
  from m(1,2,4) m1 m2
  have M: "\<exists>m m'. regional_counts juan_v2 = Inr m \<and> regional_counts juan_luis_v2 = Inr m'
         \<and> m (Str ''SUR'') = Some 1 \<and> m' (Str ''SUR'') = Some 2
         \<and> m' (Str ''ORIENTE'') = m (Str ''ORIENTE'')" by blast
  from s(1,2,4) s1 s2
  have S: "\<exists>s s'. recaudo_reg juan_v2 = Inr s \<and> recaudo_reg juan_luis_v2 = Inr s'
         \<and> s (Str ''SUR'') = Some 1000 \<and> s' (Str ''SUR'') = Some 1500
         \<and> s' (Str ''ORIENTE'') = s (Str ''ORIENTE'')" by blast
  from T h v f M S show ?thesis by simp
qed

text \<open>
  The claim as stated fails in variant 1: after the submission the table still has
  its one record.
\<close>

theorem new_member_v1_counterexample:
  "fst (new_member_v1 juan_v1 member_ejemplo) = juan_v1
   \<and> length (rows (fst (new_member_v1 juan_v1 member_ejemplo))) = 1
   \<and> snd (new_member_v1 juan_v1 member_ejemplo) = [St_success]"
  by (simp add: new_member_v1_def juan_v1_frame)

section \<open>The search box\<close>













section \<open>The Dashboard\<close>














section \<open>The search on the page\<close>












end
